theory Spec2Isabelle
  imports Main "HOL-Library.AList"
begin

section \<open>JavaScript values\<close>

text \<open>
  The handler works on what \<^verbatim>\<open>JSON.parse\<close> returns: null, booleans, numbers, strings,
  arrays and objects. Reading a property that is not there gives \<^verbatim>\<open>undefined\<close>, so the
  value type has it too. An object is its list of own properties in insertion order.
  Numbers are integers here: the handler only tests a number for being zero and copies it.
  Strings are lists of 8-bit characters.
\<close>

datatype jsval =
    JUndefined
  | JNull
  | JBool bool
  | JNum int
  | JStr string
  | JArr "jsval list"
  | JObj "(string \<times> jsval) list"

text \<open>A thrown error object, of which the handler reads \<^verbatim>\<open>name\<close> and \<^verbatim>\<open>message\<close>.\<close>

record js_error =
  error_name :: string
  error_message :: string

definition TypeError :: "string \<Rightarrow> js_error" where
  "TypeError msg = \<lparr>error_name = ''TypeError'', error_message = msg\<rparr>"

text \<open>Truthiness, as \<^verbatim>\<open>||\<close> and \<^verbatim>\<open>if\<close> test it.\<close>

fun truthy :: "jsval \<Rightarrow> bool" where
  "truthy JUndefined = False"
| "truthy JNull = False"
| "truthy (JBool b) = b"
| "truthy (JNum n) = (n \<noteq> 0)"
| "truthy (JStr s) = (s \<noteq> [])"
| "truthy (JArr xs) = True"
| "truthy (JObj fs) = True"

text \<open>\<^verbatim>\<open>a || b\<close>\<close>

definition js_or :: "jsval \<Rightarrow> jsval \<Rightarrow> jsval" where
  "js_or a b = (if truthy a then a else b)"

fun nullish :: "jsval \<Rightarrow> bool" where
  "nullish JUndefined = True"
| "nullish JNull = True"
| "nullish v = False"

text \<open>
  \<^verbatim>\<open>v.k\<close> for a \<^verbatim>\<open>v\<close> that is neither null nor undefined. The names the handler reads
  (mail, eventType, notificationType, messageId, destination, source, commonHeaders,
  subject, bounce, complaint, delivery, reject, failure and the detail names) are defined
  on no prototype, so on a boolean, a number, a string or an array they read as undefined.
\<close>

fun own_prop :: "jsval \<Rightarrow> string \<Rightarrow> jsval" where
  "own_prop (JObj fs) k = (case map_of fs k of None \<Rightarrow> JUndefined | Some v \<Rightarrow> v)"
| "own_prop v k = JUndefined"

text \<open>\<^verbatim>\<open>v.k\<close>: a TypeError on null and undefined.\<close>

definition get_prop :: "jsval \<Rightarrow> string \<Rightarrow> js_error + jsval" where
  "get_prop v k =
     (if nullish v then Inl (TypeError (''Cannot read properties of null or undefined: '' @ k))
      else Inr (own_prop v k))"

text \<open>\<^verbatim>\<open>v?.k\<close>\<close>

definition opt_prop :: "jsval \<Rightarrow> string \<Rightarrow> jsval" where
  "opt_prop v k = (if nullish v then JUndefined else own_prop v k)"

text \<open>\<^verbatim>\<open>v?.[0]\<close>: the first element of an array, the first character of a string, the
  property \<^verbatim>\<open>"0"\<close> of an object.\<close>

fun opt_index0 :: "jsval \<Rightarrow> jsval" where
  "opt_index0 (JArr []) = JUndefined"
| "opt_index0 (JArr (x # xs)) = x"
| "opt_index0 (JStr []) = JUndefined"
| "opt_index0 (JStr (c # cs)) = JStr [c]"
| "opt_index0 (JObj fs) = own_prop (JObj fs) ''0''"
| "opt_index0 v = JUndefined"

text \<open>
  \<^verbatim>\<open>v.k = x\<close>: on an object the property keeps its place when it exists and is appended
  otherwise. The module is not in strict mode, so the assignment does nothing on a
  boolean, a number or a string; the handler assigns to objects only.
\<close>

fun set_prop :: "jsval \<Rightarrow> string \<Rightarrow> jsval \<Rightarrow> jsval" where
  "set_prop (JObj fs) k x = JObj (AList.update k x fs)"
| "set_prop v k x = v"

text \<open>An object without the named properties (used to compare two records field by field).\<close>

fun drop_fields :: "string list \<Rightarrow> jsval \<Rightarrow> jsval" where
  "drop_fields ks (JObj fs) = JObj (filter (\<lambda>p. fst p \<notin> set ks) fs)"
| "drop_fields ks v = v"

section \<open>Event Normalizer: \<^verbatim>\<open>processSESEvent\<close>\<close>

abbreviation unknown :: jsval where
  "unknown \<equiv> JStr ''unknown''"

text \<open>
  The \<^verbatim>\<open>switch (snsMessage.eventType)\<close> of lines 179 to 221: the case labels are compared
  with \<^verbatim>\<open>===\<close>, so only a string equal to a label selects its branch.
\<close>

definition event_details :: "jsval \<Rightarrow> jsval \<Rightarrow> jsval" where
  "event_details snsMessage processedEvent =
     (let eventType = own_prop snsMessage ''eventType'' in
      if eventType = JStr ''Bounce'' \<or> eventType = JStr ''bounce'' then
        (let bounce = js_or (own_prop snsMessage ''bounce'') (JObj []);
             p1 = set_prop processedEvent ''bounceType''
                    (js_or (own_prop bounce ''bounceType'') unknown);
             p2 = set_prop p1 ''bounceSubType''
                    (js_or (own_prop bounce ''bounceSubType'') unknown)
         in set_prop p2 ''bouncedRecipients''
              (js_or (own_prop bounce ''bouncedRecipients'') (JArr [])))
      else if eventType = JStr ''Complaint'' \<or> eventType = JStr ''complaint'' then
        (let complaint = js_or (own_prop snsMessage ''complaint'') (JObj []);
             p1 = set_prop processedEvent ''complaintFeedbackType''
                    (js_or (own_prop complaint ''complaintFeedbackType'') unknown)
         in set_prop p1 ''complainedRecipients''
              (js_or (own_prop complaint ''complainedRecipients'') (JArr [])))
      else if eventType = JStr ''Delivery'' \<or> eventType = JStr ''delivery'' then
        (let delivery = js_or (own_prop snsMessage ''delivery'') (JObj []);
             p1 = set_prop processedEvent ''processingTimeMillis''
                    (js_or (own_prop delivery ''processingTimeMillis'') (JNum 0))
         in set_prop p1 ''smtpResponse''
              (js_or (own_prop delivery ''smtpResponse'') unknown))
      else if eventType = JStr ''Send'' \<or> eventType = JStr ''send'' then
        processedEvent
      else if eventType = JStr ''Reject'' \<or> eventType = JStr ''reject'' then
        (let reject = js_or (own_prop snsMessage ''reject'') (JObj [])
         in set_prop processedEvent ''reason''
              (js_or (own_prop reject ''reason'') unknown))
      else if eventType = JStr ''Rendering Failure'' \<or> eventType = JStr ''renderingFailure'' then
        (let renderingFailure = js_or (own_prop snsMessage ''failure'') (JObj []);
             p1 = set_prop processedEvent ''errorMessage''
                    (js_or (own_prop renderingFailure ''errorMessage'') unknown)
         in set_prop p1 ''templateName''
              (js_or (own_prop renderingFailure ''templateName'') unknown))
      else processedEvent)"

text \<open>
  \<^verbatim>\<open>processSESEvent(snsMessage)\<close>, lines 167 to 224. The first argument is what
  \<^verbatim>\<open>new Date().toISOString()\<close> returns at the call. The first property read,
  \<^verbatim>\<open>snsMessage.mail\<close>, throws a TypeError on null and undefined; after it nothing throws.
\<close>

definition processSESEvent :: "string \<Rightarrow> jsval \<Rightarrow> js_error + jsval" where
  "processSESEvent now snsMessage =
     (case get_prop snsMessage ''mail'' of
        Inl e \<Rightarrow> Inl e
      | Inr mail \<Rightarrow>
          Inr (event_details snsMessage
            (JObj
              [(''timestamp'', JStr now),
               (''messageId'', js_or (opt_prop mail ''messageId'') unknown),
               (''eventType'', js_or (own_prop snsMessage ''eventType'') unknown),
               (''recipient'', js_or (opt_index0 (opt_prop mail ''destination'')) unknown),
               (''source'', js_or (opt_prop mail ''source'') unknown),
               (''subject'', js_or (opt_prop (opt_prop mail ''commonHeaders'') ''subject'') unknown),
               (''rawEvent'', snsMessage)])))"

section \<open>The log store, the console and the platform\<close>

text \<open>
  The commands the handler sends to the CloudWatch Logs client, with the parameters it
  gives them. \<^verbatim>\<open>sequenceToken\<close> is \<open>None\<close> when the property is not set.
\<close>

record log_event =
  timestamp :: int
  message :: string

record put_params =
  logGroupName :: string
  logStreamName :: string
  logEvents :: "log_event list"
  sequenceToken :: "jsval option"

datatype command =
    CreateLogGroupCommand string
  | CreateLogStreamCommand string string
  | DescribeLogStreamsCommand string string
  | PutLogEventsCommand put_params

text \<open>
  Of a reply the handler reads only \<^verbatim>\<open>logStreams\<close> (undefined is \<open>None\<close>) and, of its
  first stream, \<^verbatim>\<open>uploadSequenceToken\<close>.
\<close>

datatype log_stream = LogStream (streamName: string) (uploadSequenceToken: jsval)

record response =
  logStreams :: "log_stream list option"

text \<open>The Lambda event: SNS records with their source tag and their message text.\<close>

record sns =
  Message :: string

record sns_record =
  EventSource :: string
  Sns :: sns

record lambda_event =
  Records :: "sns_record list"

record handler_result =
  statusCode :: int
  body :: string

text \<open>
  A console line is the list of the arguments of one \<^verbatim>\<open>console.log\<close> or
  \<^verbatim>\<open>console.error\<close> call; the pieces of a template literal that are not strings are
  kept as values.
\<close>

datatype console_arg =
    Text string
  | Value jsval
  | RecordArg sns_record
  | EventArg lambda_event

datatype console_line =
    console_log "console_arg list"
  | console_error "console_arg list"

text \<open>
  The state an invocation runs in: the store (of any type \<open>'w\<close>), the commands sent to it
  so far, oldest first, and the console lines printed so far.
\<close>

record 'w state =
  world :: 'w
  sent :: "command list"
  console :: "console_line list"

text \<open>
  What the handler takes from outside: the configured log group name, the store's answer
  to a command (\<open>Inl\<close> is a rejected promise), the clock, and the JSON library
  (\<open>Inl\<close> is the SyntaxError \<^verbatim>\<open>JSON.parse\<close> throws).
\<close>

record 'w runtime =
  LOG_GROUP_NAME :: string
  send :: "command \<Rightarrow> 'w \<Rightarrow> (js_error + response) \<times> 'w"
  Date_now :: "'w \<Rightarrow> int"
  toISOString :: "'w \<Rightarrow> string"
  JSON_parse :: "string \<Rightarrow> js_error + jsval"
  JSON_stringify :: "jsval \<Rightarrow> string"

definition LOG_STREAM_NAME :: string where
  "LOG_STREAM_NAME = ''ses-email-events-stream''"

text \<open>\<^verbatim>\<open>await cloudwatchLogs.send(cmd)\<close>\<close>

definition cloudwatchLogs_send ::
  "'w runtime \<Rightarrow> command \<Rightarrow> 'w state \<Rightarrow> (js_error + response) \<times> 'w state" where
  "cloudwatchLogs_send rt cmd s =
     (case send rt cmd (world s) of
        (r, w) \<Rightarrow> (r, s\<lparr>world := w, sent := sent s @ [cmd]\<rparr>))"

definition print :: "console_line \<Rightarrow> 'w state \<Rightarrow> 'w state" where
  "print l s = s\<lparr>console := console s @ [l]\<rparr>"

section \<open>Append-Only Log Client\<close>

text \<open>The first \<^verbatim>\<open>try\<close> of \<^verbatim>\<open>ensureLogGroupExists\<close>, lines 30 to 51.\<close>

definition createLogGroup ::
  "'w runtime \<Rightarrow> 'w state \<Rightarrow> (js_error + unit) \<times> 'w state" where
  "createLogGroup rt s =
     (case cloudwatchLogs_send rt (CreateLogGroupCommand (LOG_GROUP_NAME rt)) s of
        (Inr r, s1) \<Rightarrow>
          (Inr (), print (console_log [Text (''Created log group: '' @ LOG_GROUP_NAME rt)]) s1)
      | (Inl error, s1) \<Rightarrow>
          if error_name error = ''ResourceAlreadyExistsException'' then
            (Inr (), print (console_log
               [Text (''Log group already exists: '' @ LOG_GROUP_NAME rt)]) s1)
          else if error_name error = ''AccessDeniedException'' then
            (Inr (), print (console_log
               [Text (''Cannot create log group (access denied), assuming it exists: ''
                      @ LOG_GROUP_NAME rt)]) s1)
          else
            (Inl error, print (console_error
               [Text (''Error creating log group: '' @ error_message error)]) s1))"

text \<open>The second \<^verbatim>\<open>try\<close>, lines 53 to 75.\<close>

definition createLogStream ::
  "'w runtime \<Rightarrow> 'w state \<Rightarrow> (js_error + unit) \<times> 'w state" where
  "createLogStream rt s =
     (case cloudwatchLogs_send rt
             (CreateLogStreamCommand (LOG_GROUP_NAME rt) LOG_STREAM_NAME) s of
        (Inr r, s1) \<Rightarrow>
          (Inr (), print (console_log [Text (''Created log stream: '' @ LOG_STREAM_NAME)]) s1)
      | (Inl error, s1) \<Rightarrow>
          if error_name error = ''ResourceAlreadyExistsException'' then
            (Inr (), print (console_log
               [Text (''Log stream already exists: '' @ LOG_STREAM_NAME)]) s1)
          else if error_name error = ''AccessDeniedException'' then
            (Inr (), print (console_log
               [Text (''Cannot create log stream (access denied), assuming it exists: ''
                      @ LOG_STREAM_NAME)]) s1)
          else
            (Inl error, print (console_error
               [Text (''Error creating log stream: '' @ error_message error)]) s1))"

definition ensureLogGroupExists ::
  "'w runtime \<Rightarrow> 'w state \<Rightarrow> (js_error + unit) \<times> 'w state" where
  "ensureLogGroupExists rt s =
     (case createLogGroup rt s of
        (Inl error, s1) \<Rightarrow> (Inl error, s1)
      | (Inr u, s1) \<Rightarrow> createLogStream rt s1)"

text \<open>\<^verbatim>\<open>getSequenceToken\<close>, lines 81 to 98.\<close>

definition getSequenceToken ::
  "'w runtime \<Rightarrow> 'w state \<Rightarrow> (js_error + jsval) \<times> 'w state" where
  "getSequenceToken rt s =
     (case cloudwatchLogs_send rt
             (DescribeLogStreamsCommand (LOG_GROUP_NAME rt) LOG_STREAM_NAME) s of
        (Inr response, s1) \<Rightarrow>
          (case logStreams response of
             Some (st # sts) \<Rightarrow> (Inr (uploadSequenceToken st), s1)
           | Some [] \<Rightarrow> (Inr JNull, s1)
           | None \<Rightarrow> (Inr JNull, s1))
      | (Inl error, s1) \<Rightarrow>
          (Inr JNull, print (console_error
             [Text (''Error getting sequence token: '' @ error_message error)]) s1))"

text \<open>
  \<^verbatim>\<open>error.message.match(/The next expected sequenceToken is: (\S+)/)\<close>: the capture group
  of the leftmost place where the literal text is followed by at least one character
  that is not white space; the group takes all of them. White space is what \<^verbatim>\<open>\s\<close>
  matches among the characters below 256.
\<close>

definition is_space :: "char \<Rightarrow> bool" where
  "is_space c = ((of_char c :: nat) \<in> {9, 10, 11, 12, 13, 32, 160})"

definition token_prefix :: string where
  "token_prefix = ''The next expected sequenceToken is: ''"

fun match_token :: "string \<Rightarrow> string option" where
  "match_token [] = None"
| "match_token (c # cs) =
     (if take (length token_prefix) (c # cs) = token_prefix
         \<and> takeWhile (\<lambda>x. \<not> is_space x) (drop (length token_prefix) (c # cs)) \<noteq> []
      then Some (takeWhile (\<lambda>x. \<not> is_space x) (drop (length token_prefix) (c # cs)))
      else match_token cs)"

text \<open>The inner \<^verbatim>\<open>try\<close> of \<^verbatim>\<open>writeToCloudWatch\<close>, lines 132 to 158.\<close>

definition writeToCloudWatch_retry ::
  "'w runtime \<Rightarrow> jsval \<Rightarrow> js_error \<Rightarrow> 'w state \<Rightarrow> (js_error + bool) \<times> 'w state" where
  "writeToCloudWatch_retry rt msg error s =
     (let retryParams =
            \<lparr>logGroupName = LOG_GROUP_NAME rt,
             logStreamName = LOG_STREAM_NAME,
             logEvents = [\<lparr>timestamp = Date_now rt (world s),
                           message = JSON_stringify rt msg\<rparr>],
             sequenceToken = map_option JStr (match_token (error_message error))\<rparr>
      in case cloudwatchLogs_send rt (PutLogEventsCommand retryParams) s of
           (Inr r, s1) \<Rightarrow>
             (Inr True, print (console_log
                [Text ''Successfully wrote event to CloudWatch Logs (retry)'']) s1)
         | (Inl retryError, s1) \<Rightarrow>
             (Inr False, print (console_error
                [Text (''Retry failed: '' @ error_message retryError)]) s1))"

text \<open>The \<^verbatim>\<open>catch\<close> of \<^verbatim>\<open>writeToCloudWatch\<close>, lines 127 to 161.\<close>

definition writeToCloudWatch_catch ::
  "'w runtime \<Rightarrow> jsval \<Rightarrow> js_error \<Rightarrow> 'w state \<Rightarrow> (js_error + bool) \<times> 'w state" where
  "writeToCloudWatch_catch rt msg error s =
     (let s1 = print (console_error
                 [Text (''Error writing to CloudWatch Logs: '' @ error_message error)]) s
      in if error_name error = ''InvalidSequenceTokenException''
         then writeToCloudWatch_retry rt msg error s1
         else (Inr False, s1))"

text \<open>\<^verbatim>\<open>writeToCloudWatch(message)\<close>, lines 103 to 162.\<close>

definition writeToCloudWatch ::
  "'w runtime \<Rightarrow> jsval \<Rightarrow> 'w state \<Rightarrow> (js_error + bool) \<times> 'w state" where
  "writeToCloudWatch rt msg s =
     (case getSequenceToken rt s of
        (Inl error, s1) \<Rightarrow> writeToCloudWatch_catch rt msg error s1
      | (Inr token, s1) \<Rightarrow>
          (let logEvent = \<lparr>timestamp = Date_now rt (world s1),
                           message = JSON_stringify rt msg\<rparr>;
               putLogEventsParams =
                 \<lparr>logGroupName = LOG_GROUP_NAME rt,
                  logStreamName = LOG_STREAM_NAME,
                  logEvents = [logEvent],
                  sequenceToken = (if truthy token then Some token else None)\<rparr>
           in case cloudwatchLogs_send rt (PutLogEventsCommand putLogEventsParams) s1 of
                (Inr r, s2) \<Rightarrow>
                  (Inr True, print (console_log
                     [Text ''Successfully wrote event to CloudWatch Logs'']) s2)
              | (Inl error, s2) \<Rightarrow> writeToCloudWatch_catch rt msg error s2))"

section \<open>Batch Dispatcher: \<^verbatim>\<open>sesEventsHandler\<close>\<close>

text \<open>
  What lines 238 to 259 make of one record: nothing to write (the record is skipped), or
  the message, after line 256, with the record that \<^verbatim>\<open>processSESEvent\<close> built from it.
\<close>

datatype prepared =
    Skip
  | Relevant jsval jsval

text \<open>Lines 255 to 257: a legacy notification gets its kind copied into \<^verbatim>\<open>eventType\<close>.\<close>

definition legacy_to_eventType :: "jsval \<Rightarrow> jsval" where
  "legacy_to_eventType snsMessage =
     (if truthy (own_prop snsMessage ''notificationType'')
      then set_prop snsMessage ''eventType'' (own_prop snsMessage ''notificationType'')
      else snsMessage)"

text \<open>
  The loop body up to the call of \<^verbatim>\<open>writeToCloudWatch\<close>, lines 238 to 259, with the
  \<^verbatim>\<open>else\<close> of lines 269 to 271. \<^verbatim>\<open>snsMessage.eventType\<close> on line 253 throws a TypeError
  when the message text is the JSON \<^verbatim>\<open>null\<close>.
\<close>

definition sesEventsHandler_prepare ::
  "'w runtime \<Rightarrow> sns_record \<Rightarrow> 'w state \<Rightarrow> (js_error + prepared) \<times> 'w state" where
  "sesEventsHandler_prepare rt record s =
     (if EventSource record = ''aws:sns'' then
        (let s1 = print (console_log [Text ''Processing SNS record:'', RecordArg record]) s;
             s2 = print (console_log
                    [Text ''Raw SNS Message:'', Text (Message (Sns record))]) s1
         in case JSON_parse rt (Message (Sns record)) of
              Inl parseError \<Rightarrow>
                (Inr Skip,
                 print (console_error [Text ''Raw message content:'', Text (Message (Sns record))])
                   (print (console_error
                      [Text ''Failed to parse SNS message:'', Text (error_message parseError)])
                      s2))
            | Inr snsMessage \<Rightarrow>
                (case get_prop snsMessage ''eventType'' of
                   Inl e \<Rightarrow> (Inl e, s2)
                 | Inr eventType \<Rightarrow>
                     if truthy eventType \<or> truthy (own_prop snsMessage ''notificationType'')
                     then
                       (case processSESEvent (toISOString rt (world s2))
                               (legacy_to_eventType snsMessage) of
                          Inl e \<Rightarrow> (Inl e, s2)
                        | Inr processedEvent \<Rightarrow>
                            (Inr (Relevant (legacy_to_eventType snsMessage) processedEvent), s2))
                     else
                       (Inr Skip, print (console_log
                          [Text ''Received non-SES SNS message, skipping...'']) s2)))
      else (Inr Skip, s))"

text \<open>The whole loop body, lines 238 to 272.\<close>

definition sesEventsHandler_record ::
  "'w runtime \<Rightarrow> sns_record \<Rightarrow> 'w state \<Rightarrow> (js_error + unit) \<times> 'w state" where
  "sesEventsHandler_record rt record s =
     (case sesEventsHandler_prepare rt record s of
        (Inl e, s1) \<Rightarrow> (Inl e, s1)
      | (Inr Skip, s1) \<Rightarrow> (Inr (), s1)
      | (Inr (Relevant snsMessage processedEvent), s1) \<Rightarrow>
          (case writeToCloudWatch rt processedEvent s1 of
             (Inl e, s2) \<Rightarrow> (Inl e, s2)
           | (Inr ok, s2) \<Rightarrow>
               if ok then
                 (Inr (), print (console_log
                    [Text ''Processed '', Value (own_prop snsMessage ''eventType''),
                     Text '' event for '', Value (own_prop processedEvent ''recipient'')]) s2)
               else
                 (Inr (), print (console_error
                    [Text ''Failed to write event to CloudWatch'']) s2)))"

text \<open>\<^verbatim>\<open>for (const record of event.Records)\<close>: an exception ends the loop.\<close>

fun sesEventsHandler_loop ::
  "'w runtime \<Rightarrow> sns_record list \<Rightarrow> 'w state \<Rightarrow> (js_error + unit) \<times> 'w state" where
  "sesEventsHandler_loop rt [] s = (Inr (), s)"
| "sesEventsHandler_loop rt (record # records) s =
     (case sesEventsHandler_record rt record s of
        (Inl e, s1) \<Rightarrow> (Inl e, s1)
      | (Inr u, s1) \<Rightarrow> sesEventsHandler_loop rt records s1)"

text \<open>
  The function given to \<^verbatim>\<open>Sentry.AWSLambda.wrapHandler\<close>, lines 229 to 283. \<open>Inl\<close> is the
  exception the invocation ends with.
\<close>

definition sesEventsHandler ::
  "'w runtime \<Rightarrow> lambda_event \<Rightarrow> 'w state \<Rightarrow> (js_error + handler_result) \<times> 'w state" where
  "sesEventsHandler rt event s =
     (let s0 = print (console_log [Text ''Received event:'', EventArg event]) s
      in case ensureLogGroupExists rt s0 of
           (Inl error, s1) \<Rightarrow> (Inl error, s1)
         | (Inr u, s1) \<Rightarrow>
             (case sesEventsHandler_loop rt (Records event) s1 of
                (Inl error, s2) \<Rightarrow>
                  (Inl error, print (console_error
                     [Text (''Error processing event: '' @ error_message error)]) s2)
              | (Inr u2, s2) \<Rightarrow>
                  (Inr \<lparr>statusCode = 200,
                        body = JSON_stringify rt (JStr ''Events processed successfully'')\<rparr>,
                   s2)))"

section \<open>Vocabulary of the statements\<close>

text \<open>
  The two spellings of each event kind, as the case labels of the \<^verbatim>\<open>switch\<close> pair them
  (lines 180 to 216).
\<close>

definition kind_spellings :: "(string \<times> string) list" where
  "kind_spellings =
     [(''Bounce'', ''bounce''), (''Complaint'', ''complaint''), (''Delivery'', ''delivery''),
      (''Send'', ''send''), (''Reject'', ''reject''),
      (''Rendering Failure'', ''renderingFailure'')]"

text \<open>The properties of the object literal of lines 168 to 176.\<close>

definition base_fields :: "string list" where
  "base_fields = [''timestamp'', ''messageId'', ''eventType'', ''recipient'', ''source'',
                  ''subject'', ''rawEvent'']"

text \<open>The properties the \<^verbatim>\<open>switch\<close> assigns.\<close>

definition detail_names :: "string list" where
  "detail_names = [''bounceType'', ''bounceSubType'', ''bouncedRecipients'',
     ''complaintFeedbackType'', ''complainedRecipients'', ''processingTimeMillis'',
     ''smtpResponse'', ''reason'', ''errorMessage'', ''templateName'']"

text \<open>Two calls both returned a record, and the records agree outside the named properties.\<close>

definition same_but :: "string list \<Rightarrow> js_error + jsval \<Rightarrow> js_error + jsval \<Rightarrow> bool" where
  "same_but ks r1 r2 =
     (case (r1, r2) of
        (Inr e1, Inr e2) \<Rightarrow> drop_fields ks e1 = drop_fields ks e2
      | _ \<Rightarrow> False)"

text \<open>
  A reply that \<^verbatim>\<open>ensureLogGroupExists\<close> goes on after: the creation succeeded, the
  resource exists already, or the function may not create it.
\<close>

definition tolerated :: "js_error + response \<Rightarrow> bool" where
  "tolerated r =
     (case r of
        Inr x \<Rightarrow> True
      | Inl e \<Rightarrow> error_name e = ''ResourceAlreadyExistsException''
                 \<or> error_name e = ''AccessDeniedException'')"

text \<open>
  The cursor lookup in the specification's words: the cursor of the stream whose name is
  exactly the fixed stream name, and null when the reply has no such stream.
\<close>

definition cursor_by_exact_name :: "log_stream list \<Rightarrow> jsval" where
  "cursor_by_exact_name streams =
     (case find (\<lambda>st. streamName st = LOG_STREAM_NAME) streams of
        None \<Rightarrow> JNull
      | Some st \<Rightarrow> uploadSequenceToken st)"

text \<open>
  A store for running the handler on examples: it answers the commands it is sent with
  the replies it was given, in order, and with an empty reply once they are used up. The
  example platform has the log group name of \<^verbatim>\<open>test-event.js\<close>, a fixed clock, the
  \<^verbatim>\<open>JSON.parse\<close> it is given, and a \<^verbatim>\<open>JSON.stringify\<close> that prints every value as
  \<^verbatim>\<open>{}\<close>.
\<close>

definition scripted_send ::
  "command \<Rightarrow> (js_error + response) list \<Rightarrow> (js_error + response) \<times> (js_error + response) list" where
  "scripted_send cmd rs =
     (case rs of
        [] \<Rightarrow> (Inr \<lparr>logStreams = None\<rparr>, [])
      | r # rs' \<Rightarrow> (r, rs'))"

definition test_runtime ::
  "(string \<Rightarrow> js_error + jsval) \<Rightarrow> (js_error + response) list runtime" where
  "test_runtime parse =
     \<lparr>LOG_GROUP_NAME = ''/aws/ses/email-events-test'',
      send = scripted_send,
      Date_now = (\<lambda>w. 1672574400000),
      toISOString = (\<lambda>w. ''2023-01-01T12:00:00.000Z''),
      JSON_parse = parse,
      JSON_stringify = (\<lambda>v. ''{}'')\<rparr>"

definition test_state :: "(js_error + response) list \<Rightarrow> (js_error + response) list state" where
  "test_state rs = \<lparr>world = rs, sent = [], console = []\<rparr>"


text \<open>
  A \<^verbatim>\<open>JSON.parse\<close> for the examples: it knows five message texts and throws a
  SyntaxError on every other one.
\<close>

definition test_parse :: "string \<Rightarrow> js_error + jsval" where
  "test_parse text =
     (if text = ''{\"eventType\":\"Bounce\"}'' then
        Inr (JObj [(''eventType'', JStr ''Bounce'')])
      else if text = ''{\"notificationType\":\"Bounce\"}'' then
        Inr (JObj [(''notificationType'', JStr ''Bounce'')])
      else if text = ''{\"eventType\":\"Bounce\",\"notificationType\":\"\"}'' then
        Inr (JObj [(''eventType'', JStr ''Bounce''), (''notificationType'', JStr [])])
      else if text = ''{\"eventType\":\"Delivery\",\"notificationType\":\"Bounce\"}'' then
        Inr (JObj [(''eventType'', JStr ''Delivery''), (''notificationType'', JStr ''Bounce'')])
      else if text = ''{\"Type\":\"SubscriptionConfirmation\"}'' then
        Inr (JObj [(''Type'', JStr ''SubscriptionConfirmation'')])
      else Inl \<lparr>error_name = ''SyntaxError'', error_message = ''Unexpected token''\<rparr>)"

section \<open>Reading and writing properties\<close>

lemma own_prop_Nil: "own_prop (JObj []) k = JUndefined"
  by simp

lemma own_prop_Cons:
  "own_prop (JObj ((k', v) # fs)) k = (if k = k' then v else own_prop (JObj fs) k)"
  by simp

lemma own_prop_update:
  "own_prop (JObj (AList.update k v fs)) k' = (if k' = k then v else own_prop (JObj fs) k')"
  by (simp add: update_conv')

lemma own_prop_delete:
  "own_prop (JObj (AList.delete k fs)) k' = (if k' = k then JUndefined else own_prop (JObj fs) k')"
  by (simp add: delete_conv')

lemmas own_prop_obj = own_prop_Nil own_prop_Cons own_prop_update own_prop_delete

declare own_prop.simps(1) [simp del]

lemma own_prop_set_prop:
  "own_prop (set_prop (JObj ps) k v) k' = (if k' = k then v else own_prop (JObj ps) k')"
  by (simp add: own_prop_update)

lemma js_or_default: "own_prop (js_or b (JObj [])) k = opt_prop b k"
  by (cases b) (simp_all add: js_or_def opt_prop_def own_prop_obj)

lemma js_or_unknown: "\<not> nullish (js_or a unknown)"
  by (cases a) (simp_all add: js_or_def)

lemma js_or_absent: "js_or JUndefined d = d"
  by (simp add: js_or_def)

lemma js_or_empty: "js_or (JStr []) d = d"
  by (simp add: js_or_def)

lemma js_or_zero: "js_or (JNum 0) d = d"
  by (simp add: js_or_def)

lemmas js_or_falsy = js_or_absent js_or_empty js_or_zero

lemma filter_update:
  "k \<notin> set ks \<Longrightarrow>
   filter (\<lambda>p. fst p \<notin> set ks) (AList.update k x ps)
   = AList.update k x (filter (\<lambda>p. fst p \<notin> set ks) ps)"
  by (induction ps) auto

lemma drop_fields_set_prop:
  "k \<notin> set ks \<Longrightarrow> drop_fields ks (set_prop v k x) = set_prop (drop_fields ks v) k x"
  by (cases v) (simp_all add: filter_update)

section \<open>The normalizer on objects\<close>

lemma processSESEvent_obj:
  "processSESEvent now (JObj fs) =
     Inr (event_details (JObj fs)
            (JObj
              [(''timestamp'', JStr now),
               (''messageId'', js_or (opt_prop (own_prop (JObj fs) ''mail'') ''messageId'') unknown),
               (''eventType'', js_or (own_prop (JObj fs) ''eventType'') unknown),
               (''recipient'', js_or (opt_index0 (opt_prop (own_prop (JObj fs) ''mail'') ''destination'')) unknown),
               (''source'', js_or (opt_prop (own_prop (JObj fs) ''mail'') ''source'') unknown),
               (''subject'', js_or (opt_prop (opt_prop (own_prop (JObj fs) ''mail'') ''commonHeaders'') ''subject'') unknown),
               (''rawEvent'', JObj fs)]))"
  by (simp add: processSESEvent_def get_prop_def)

text \<open>On null and undefined, and only there, the normalizer throws.\<close>

lemma processSESEvent_total:
  "processSESEvent now m
   = (if nullish m
      then Inl (TypeError (''Cannot read properties of null or undefined: '' @ ''mail''))
      else Inr (projr (processSESEvent now m)))"
  by (simp add: processSESEvent_def get_prop_def)

lemma spell_cases:
  assumes "(cap, low) \<in> set kind_spellings"
  shows "(cap = ''Bounce'' \<and> low = ''bounce'')
    \<or> (cap = ''Complaint'' \<and> low = ''complaint'')
    \<or> (cap = ''Delivery'' \<and> low = ''delivery'')
    \<or> (cap = ''Send'' \<and> low = ''send'')
    \<or> (cap = ''Reject'' \<and> low = ''reject'')
    \<or> (cap = ''Rendering Failure'' \<and> low = ''renderingFailure'')"
  using assms unfolding kind_spellings_def by simp

lemma event_details_obj: "\<exists>out. event_details m (JObj ps) = JObj out"
  by (simp add: event_details_def Let_def)

lemma event_details_other:
  assumes "k \<notin> set detail_names"
  shows "own_prop (event_details m (JObj ps)) k = own_prop (JObj ps) k"
proof -
  from assms have "k \<noteq> ''bounceType''" "k \<noteq> ''bounceSubType''" "k \<noteq> ''bouncedRecipients''"
     "k \<noteq> ''complaintFeedbackType''" "k \<noteq> ''complainedRecipients''"
     "k \<noteq> ''processingTimeMillis''" "k \<noteq> ''smtpResponse''" "k \<noteq> ''reason''"
     "k \<noteq> ''errorMessage''" "k \<noteq> ''templateName''"
    unfolding detail_names_def by simp_all
  then show ?thesis
    by (simp add: event_details_def Let_def own_prop_update)
qed

lemma base_not_detail: "k \<in> set base_fields \<Longrightarrow> k \<notin> set detail_names"
  unfolding base_fields_def detail_names_def by (simp, elim disjE, simp_all)

lemma drop_fields_event_details:
  assumes "set ks \<inter> set detail_names = {}"
  shows "drop_fields ks (event_details m (JObj ps)) = event_details m (drop_fields ks (JObj ps))"
proof -
  from assms have "''bounceType'' \<notin> set ks" "''bounceSubType'' \<notin> set ks"
     "''bouncedRecipients'' \<notin> set ks"
     "''complaintFeedbackType'' \<notin> set ks" "''complainedRecipients'' \<notin> set ks"
     "''processingTimeMillis'' \<notin> set ks" "''smtpResponse'' \<notin> set ks" "''reason'' \<notin> set ks"
     "''errorMessage'' \<notin> set ks" "''templateName'' \<notin> set ks"
    unfolding detail_names_def by simp_all
  then show ?thesis
    unfolding event_details_def Let_def
    by (simp add: drop_fields_set_prop del: set_prop.simps drop_fields.simps)
qed

lemma event_details_cong:
  assumes "own_prop m1 ''eventType'' = own_prop m2 ''eventType''"
    and "own_prop m1 ''bounce'' = own_prop m2 ''bounce''"
    and "own_prop m1 ''complaint'' = own_prop m2 ''complaint''"
    and "js_or (own_prop (js_or (own_prop m1 ''delivery'') (JObj [])) ''processingTimeMillis'') (JNum 0)
         = js_or (own_prop (js_or (own_prop m2 ''delivery'') (JObj [])) ''processingTimeMillis'') (JNum 0)"
    and "own_prop (js_or (own_prop m1 ''delivery'') (JObj [])) ''smtpResponse''
         = own_prop (js_or (own_prop m2 ''delivery'') (JObj [])) ''smtpResponse''"
    and "own_prop m1 ''reject'' = own_prop m2 ''reject''"
    and "own_prop m1 ''failure'' = own_prop m2 ''failure''"
  shows "event_details m1 p = event_details m2 p"
  unfolding event_details_def Let_def using assms by simp

lemma same_but_raw:
  assumes "event_details (JObj fs1) (JObj
              [(''timestamp'', JStr now),
               (''messageId'', js_or (opt_prop (own_prop (JObj fs1) ''mail'') ''messageId'') unknown),
               (''eventType'', js_or (own_prop (JObj fs1) ''eventType'') unknown),
               (''recipient'', js_or (opt_index0 (opt_prop (own_prop (JObj fs1) ''mail'') ''destination'')) unknown),
               (''source'', js_or (opt_prop (own_prop (JObj fs1) ''mail'') ''source'') unknown),
               (''subject'', js_or (opt_prop (opt_prop (own_prop (JObj fs1) ''mail'') ''commonHeaders'') ''subject'') unknown)])
         = event_details (JObj fs2) (JObj
              [(''timestamp'', JStr now),
               (''messageId'', js_or (opt_prop (own_prop (JObj fs2) ''mail'') ''messageId'') unknown),
               (''eventType'', js_or (own_prop (JObj fs2) ''eventType'') unknown),
               (''recipient'', js_or (opt_index0 (opt_prop (own_prop (JObj fs2) ''mail'') ''destination'')) unknown),
               (''source'', js_or (opt_prop (own_prop (JObj fs2) ''mail'') ''source'') unknown),
               (''subject'', js_or (opt_prop (opt_prop (own_prop (JObj fs2) ''mail'') ''commonHeaders'') ''subject'') unknown)])"
  shows "same_but [''rawEvent''] (processSESEvent now (JObj fs1)) (processSESEvent now (JObj fs2))"
proof -
  have d: "set [''rawEvent''] \<inter> set detail_names = {}"
    by (simp add: detail_names_def)
  show ?thesis
    by (simp add: same_but_def processSESEvent_obj drop_fields_event_details [OF d]
          del: drop_fields.simps)
       (simp add: assms)
qed

lemma event_details_base:
  "own_prop (event_details m (JObj ps)) ''timestamp'' = own_prop (JObj ps) ''timestamp''"
  "own_prop (event_details m (JObj ps)) ''messageId'' = own_prop (JObj ps) ''messageId''"
  "own_prop (event_details m (JObj ps)) ''eventType'' = own_prop (JObj ps) ''eventType''"
  "own_prop (event_details m (JObj ps)) ''recipient'' = own_prop (JObj ps) ''recipient''"
  "own_prop (event_details m (JObj ps)) ''source'' = own_prop (JObj ps) ''source''"
  "own_prop (event_details m (JObj ps)) ''subject'' = own_prop (JObj ps) ''subject''"
  "own_prop (event_details m (JObj ps)) ''rawEvent'' = own_prop (JObj ps) ''rawEvent''"
  by (simp_all add: event_details_other detail_names_def)

lemma bounce_recipients:
  assumes "own_prop m ''eventType'' = JStr ''Bounce'' \<or> own_prop m ''eventType'' = JStr ''bounce''"
  shows "own_prop (event_details m (JObj ps)) ''bouncedRecipients''
         = js_or (opt_prop (own_prop m ''bounce'') ''bouncedRecipients'') (JArr [])"
  using assms
  by (elim disjE) (simp_all add: event_details_def Let_def own_prop_update js_or_default)

lemma complaint_recipients:
  assumes "own_prop m ''eventType'' = JStr ''Complaint'' \<or> own_prop m ''eventType'' = JStr ''complaint''"
  shows "own_prop (event_details m (JObj ps)) ''complainedRecipients''
         = js_or (opt_prop (own_prop m ''complaint'') ''complainedRecipients'') (JArr [])"
  using assms
  by (elim disjE) (simp_all add: event_details_def Let_def own_prop_update js_or_default)

lemmas js_eval =
  processSESEvent_obj event_details_def own_prop_obj Let_def js_or_def opt_prop_def

section \<open>Claims about the Event Normalizer\<close>

text \<open>
  Claim C3, as amended. For each of the six event kinds, a notification whose
  \<^verbatim>\<open>eventType\<close> carries the capitalized spelling and the same notification with the
  lowercase spelling are both normalized, and the two records agree in every property
  except \<^verbatim>\<open>eventType\<close> and \<^verbatim>\<open>rawEvent\<close>: the same branch of the \<^verbatim>\<open>switch\<close> fills the
  same detail properties. \<^verbatim>\<open>eventType\<close> holds the spelling each notification came
  with, and \<^verbatim>\<open>rawEvent\<close> holds the notification itself.
\<close>

theorem kind_spelling_invariance:
  assumes "(cap, low) \<in> set kind_spellings"
  shows "\<exists>e1 e2.
      processSESEvent now (JObj (AList.update ''eventType'' (JStr cap) fs)) = Inr e1
    \<and> processSESEvent now (JObj (AList.update ''eventType'' (JStr low) fs)) = Inr e2
    \<and> drop_fields [''eventType'', ''rawEvent''] e1 = drop_fields [''eventType'', ''rawEvent''] e2
    \<and> own_prop e1 ''eventType'' = JStr cap \<and> own_prop e2 ''eventType'' = JStr low
    \<and> own_prop e1 ''rawEvent'' = JObj (AList.update ''eventType'' (JStr cap) fs)
    \<and> own_prop e2 ''rawEvent'' = JObj (AList.update ''eventType'' (JStr low) fs)"
  using spell_cases [OF assms]
  by (elim disjE conjE)
     (simp_all add: processSESEvent_obj event_details_def own_prop_obj Let_def js_or_def)

text \<open>The theorem at the pair of the rendering failure, on a notification with a template name.\<close>

theorem kind_spelling_invariance_witness:
  "(''Rendering Failure'', ''renderingFailure'') \<in> set kind_spellings
   \<and> (\<exists>e1 e2.
      processSESEvent ''2023-01-01T12:00:00.000Z''
        (JObj (AList.update ''eventType'' (JStr ''Rendering Failure'')
           [(''failure'', JObj [(''templateName'', JStr ''welcome'')])])) = Inr e1
    \<and> processSESEvent ''2023-01-01T12:00:00.000Z''
        (JObj (AList.update ''eventType'' (JStr ''renderingFailure'')
           [(''failure'', JObj [(''templateName'', JStr ''welcome'')])])) = Inr e2
    \<and> drop_fields [''eventType'', ''rawEvent''] e1 = drop_fields [''eventType'', ''rawEvent''] e2
    \<and> own_prop e1 ''eventType'' = JStr ''Rendering Failure''
    \<and> own_prop e2 ''eventType'' = JStr ''renderingFailure''
    \<and> own_prop e1 ''rawEvent''
        = JObj (AList.update ''eventType'' (JStr ''Rendering Failure'')
            [(''failure'', JObj [(''templateName'', JStr ''welcome'')])])
    \<and> own_prop e2 ''rawEvent''
        = JObj (AList.update ''eventType'' (JStr ''renderingFailure'')
            [(''failure'', JObj [(''templateName'', JStr ''welcome'')])]))"
proof -
  have h: "(''Rendering Failure'', ''renderingFailure'') \<in> set kind_spellings"
    by (simp add: kind_spellings_def)
  show ?thesis
    by (intro conjI h kind_spelling_invariance [OF h])
qed

text \<open>
  As the specification states it, the property fails: the records of a \<^verbatim>\<open>Bounce\<close> and of a
  \<^verbatim>\<open>bounce\<close> notification are not identical.
\<close>

theorem kind_spelling_identical_counterexample:
  "processSESEvent ''2023-01-01T12:00:00.000Z'' (JObj [(''eventType'', JStr ''Bounce'')])
   \<noteq> processSESEvent ''2023-01-01T12:00:00.000Z'' (JObj [(''eventType'', JStr ''bounce'')])"
  by (simp add: js_eval)

text \<open>
  Claim C4. For every notification object, \<^verbatim>\<open>processSESEvent\<close> returns a record in which
  no base property is missing, undefined or null. A base property whose source is absent
  from the notification holds \<^verbatim>\<open>"unknown"\<close>, and the recipient lists of a bounce and of a
  complaint hold the empty list when the notification has none.
\<close>

theorem processSESEvent_complete:
  "\<exists>e. processSESEvent now (JObj fs) = Inr e
     \<and> (\<forall>k\<in>set base_fields. \<not> nullish (own_prop e k))
     \<and> own_prop e ''timestamp'' = JStr now
     \<and> own_prop e ''rawEvent'' = JObj fs
     \<and> (opt_prop (own_prop (JObj fs) ''mail'') ''messageId'' = JUndefined
          \<longrightarrow> own_prop e ''messageId'' = unknown)
     \<and> (own_prop (JObj fs) ''eventType'' = JUndefined
          \<longrightarrow> own_prop e ''eventType'' = unknown)
     \<and> (opt_index0 (opt_prop (own_prop (JObj fs) ''mail'') ''destination'') = JUndefined
          \<longrightarrow> own_prop e ''recipient'' = unknown)
     \<and> (opt_prop (own_prop (JObj fs) ''mail'') ''source'' = JUndefined
          \<longrightarrow> own_prop e ''source'' = unknown)
     \<and> (opt_prop (opt_prop (own_prop (JObj fs) ''mail'') ''commonHeaders'') ''subject''
            = JUndefined
          \<longrightarrow> own_prop e ''subject'' = unknown)
     \<and> ((own_prop (JObj fs) ''eventType'' = JStr ''Bounce''
            \<or> own_prop (JObj fs) ''eventType'' = JStr ''bounce'')
          \<and> opt_prop (own_prop (JObj fs) ''bounce'') ''bouncedRecipients'' = JUndefined
          \<longrightarrow> own_prop e ''bouncedRecipients'' = JArr [])
     \<and> ((own_prop (JObj fs) ''eventType'' = JStr ''Complaint''
            \<or> own_prop (JObj fs) ''eventType'' = JStr ''complaint'')
          \<and> opt_prop (own_prop (JObj fs) ''complaint'') ''complainedRecipients'' = JUndefined
          \<longrightarrow> own_prop e ''complainedRecipients'' = JArr [])"
proof (intro exI conjI)
  show "processSESEvent now (JObj fs) = Inr (event_details (JObj fs)
            (JObj
              [(''timestamp'', JStr now),
               (''messageId'', js_or (opt_prop (own_prop (JObj fs) ''mail'') ''messageId'') unknown),
               (''eventType'', js_or (own_prop (JObj fs) ''eventType'') unknown),
               (''recipient'', js_or (opt_index0 (opt_prop (own_prop (JObj fs) ''mail'') ''destination'')) unknown),
               (''source'', js_or (opt_prop (own_prop (JObj fs) ''mail'') ''source'') unknown),
               (''subject'', js_or (opt_prop (opt_prop (own_prop (JObj fs) ''mail'') ''commonHeaders'') ''subject'') unknown),
               (''rawEvent'', JObj fs)]))"
    by (rule processSESEvent_obj)
qed (simp_all add: base_fields_def event_details_base own_prop_obj js_or_unknown js_or_absent
       bounce_recipients complaint_recipients)

text \<open>The theorem at a bounce and at a complaint that carry nothing but their kind.\<close>

theorem processSESEvent_complete_witness:
  "(\<exists>e. processSESEvent ''2023-01-01T12:00:00.000Z''
          (JObj [(''eventType'', JStr ''bounce'')]) = Inr e
     \<and> own_prop e ''messageId'' = unknown
     \<and> own_prop e ''recipient'' = unknown
     \<and> own_prop e ''source'' = unknown
     \<and> own_prop e ''subject'' = unknown
     \<and> \<not> nullish (own_prop e ''eventType'')
     \<and> own_prop e ''bouncedRecipients'' = JArr [])
   \<and> (\<exists>e. processSESEvent ''2023-01-01T12:00:00.000Z''
          (JObj [(''notificationType'', JStr ''Complaint''), (''eventType'', JStr ''Complaint'')])
            = Inr e
     \<and> \<not> nullish (own_prop e ''timestamp'')
     \<and> own_prop e ''complainedRecipients'' = JArr [])
   \<and> (\<exists>e. processSESEvent ''2023-01-01T12:00:00.000Z'' (JObj []) = Inr e
     \<and> own_prop e ''eventType'' = unknown)"
proof (intro conjI)
  show "\<exists>e. processSESEvent ''2023-01-01T12:00:00.000Z''
          (JObj [(''eventType'', JStr ''bounce'')]) = Inr e
     \<and> own_prop e ''messageId'' = unknown
     \<and> own_prop e ''recipient'' = unknown
     \<and> own_prop e ''source'' = unknown
     \<and> own_prop e ''subject'' = unknown
     \<and> \<not> nullish (own_prop e ''eventType'')
     \<and> own_prop e ''bouncedRecipients'' = JArr []"
    using processSESEvent_complete
      [of "''2023-01-01T12:00:00.000Z''" "[(''eventType'', JStr ''bounce'')]"]
    by (simp add: own_prop_obj opt_prop_def base_fields_def)
       (elim exE conjE, intro exI conjI, assumption+)
  show "\<exists>e. processSESEvent ''2023-01-01T12:00:00.000Z''
          (JObj [(''notificationType'', JStr ''Complaint''), (''eventType'', JStr ''Complaint'')])
            = Inr e
     \<and> \<not> nullish (own_prop e ''timestamp'')
     \<and> own_prop e ''complainedRecipients'' = JArr []"
    using processSESEvent_complete
      [of "''2023-01-01T12:00:00.000Z''"
          "[(''notificationType'', JStr ''Complaint''), (''eventType'', JStr ''Complaint'')]"]
    by (simp add: own_prop_obj opt_prop_def base_fields_def)
       (elim exE conjE, intro exI conjI, assumption+)
  show "\<exists>e. processSESEvent ''2023-01-01T12:00:00.000Z'' (JObj []) = Inr e
     \<and> own_prop e ''eventType'' = unknown"
    using processSESEvent_complete [of "''2023-01-01T12:00:00.000Z''" "[]"]
    by (simp add: own_prop_obj opt_prop_def base_fields_def)
       (elim exE conjE, intro exI conjI, assumption+)
qed

text \<open>
  Claim C10, as amended. A notification in which \<^verbatim>\<open>mail.messageId\<close>,
  \<^verbatim>\<open>mail.source\<close>, \<^verbatim>\<open>mail.commonHeaders.subject\<close> or \<^verbatim>\<open>eventType\<close> is the empty string,
  or \<^verbatim>\<open>delivery.processingTimeMillis\<close> is 0, and the same notification with that
  property removed are both normalized, and the two records agree in every property
  except \<^verbatim>\<open>rawEvent\<close>, which holds each notification as it came.
\<close>

theorem falsy_as_absent:
  "same_but [''rawEvent'']
     (processSESEvent now (JObj (AList.update ''mail''
        (JObj (AList.update ''messageId'' (JStr []) mfs)) fs)))
     (processSESEvent now (JObj (AList.update ''mail''
        (JObj (AList.delete ''messageId'' mfs)) fs)))
 \<and> same_but [''rawEvent'']
     (processSESEvent now (JObj (AList.update ''mail''
        (JObj (AList.update ''source'' (JStr []) mfs)) fs)))
     (processSESEvent now (JObj (AList.update ''mail''
        (JObj (AList.delete ''source'' mfs)) fs)))
 \<and> same_but [''rawEvent'']
     (processSESEvent now (JObj (AList.update ''mail''
        (JObj (AList.update ''commonHeaders''
           (JObj (AList.update ''subject'' (JStr []) hfs)) mfs)) fs)))
     (processSESEvent now (JObj (AList.update ''mail''
        (JObj (AList.update ''commonHeaders''
           (JObj (AList.delete ''subject'' hfs)) mfs)) fs)))
 \<and> same_but [''rawEvent'']
     (processSESEvent now (JObj (AList.update ''eventType'' (JStr []) fs)))
     (processSESEvent now (JObj (AList.delete ''eventType'' fs)))
 \<and> same_but [''rawEvent'']
     (processSESEvent now (JObj (AList.update ''delivery''
        (JObj (AList.update ''processingTimeMillis'' (JNum 0) dfs)) fs)))
     (processSESEvent now (JObj (AList.update ''delivery''
        (JObj (AList.delete ''processingTimeMillis'' dfs)) fs)))"
proof (intro conjI)
  have mail: "event_details (JObj (AList.update ''mail'' x fs)) p
              = event_details (JObj (AList.update ''mail'' y fs)) p" for x y p
    by (rule event_details_cong) (simp_all add: own_prop_obj)
  show "same_but [''rawEvent'']
     (processSESEvent now (JObj (AList.update ''mail''
        (JObj (AList.update ''messageId'' (JStr []) mfs)) fs)))
     (processSESEvent now (JObj (AList.update ''mail''
        (JObj (AList.delete ''messageId'' mfs)) fs)))"
    by (rule same_but_raw) (simp add: own_prop_obj opt_prop_def js_or_falsy mail)
  show "same_but [''rawEvent'']
     (processSESEvent now (JObj (AList.update ''mail''
        (JObj (AList.update ''source'' (JStr []) mfs)) fs)))
     (processSESEvent now (JObj (AList.update ''mail''
        (JObj (AList.delete ''source'' mfs)) fs)))"
    by (rule same_but_raw) (simp add: own_prop_obj opt_prop_def js_or_falsy mail)
  show "same_but [''rawEvent'']
     (processSESEvent now (JObj (AList.update ''mail''
        (JObj (AList.update ''commonHeaders''
           (JObj (AList.update ''subject'' (JStr []) hfs)) mfs)) fs)))
     (processSESEvent now (JObj (AList.update ''mail''
        (JObj (AList.update ''commonHeaders''
           (JObj (AList.delete ''subject'' hfs)) mfs)) fs)))"
    by (rule same_but_raw) (simp add: own_prop_obj opt_prop_def js_or_falsy mail)
  show "same_but [''rawEvent'']
     (processSESEvent now (JObj (AList.update ''eventType'' (JStr []) fs)))
     (processSESEvent now (JObj (AList.delete ''eventType'' fs)))"
    by (rule same_but_raw) (simp add: own_prop_obj js_or_falsy event_details_def)
  have "event_details (JObj (AList.update ''delivery''
            (JObj (AList.update ''processingTimeMillis'' (JNum 0) dfs)) fs)) p
        = event_details (JObj (AList.update ''delivery''
            (JObj (AList.delete ''processingTimeMillis'' dfs)) fs)) p" for p
    by (rule event_details_cong) (simp_all add: own_prop_obj js_or_def)
  then show "same_but [''rawEvent'']
     (processSESEvent now (JObj (AList.update ''delivery''
        (JObj (AList.update ''processingTimeMillis'' (JNum 0) dfs)) fs)))
     (processSESEvent now (JObj (AList.update ''delivery''
        (JObj (AList.delete ''processingTimeMillis'' dfs)) fs)))"
    by (intro same_but_raw) (simp add: own_prop_obj)
qed

text \<open>
  As the specification states it, the property fails: with an empty \<^verbatim>\<open>mail.source\<close> and without it the two
  records are not identical.
\<close>

theorem falsy_as_absent_counterexample:
  "processSESEvent ''2023-01-01T12:00:00.000Z''
     (JObj [(''eventType'', JStr ''send''), (''mail'', JObj [(''source'', JStr [])])])
   \<noteq> processSESEvent ''2023-01-01T12:00:00.000Z''
     (JObj [(''eventType'', JStr ''send''), (''mail'', JObj [])])"
  by (simp add: js_eval)

section \<open>Claims about the Append-Only Log Client\<close>

lemma createLogGroup_result:
  assumes "send rt (CreateLogGroupCommand (LOG_GROUP_NAME rt)) (world s) = (r, w)"
  shows "fst (createLogGroup rt s) = (if tolerated r then Inr () else Inl (projl r))"
    and "world (snd (createLogGroup rt s)) = w"
    and "sent (snd (createLogGroup rt s)) = sent s @ [CreateLogGroupCommand (LOG_GROUP_NAME rt)]"
  using assms
  by (simp_all add: createLogGroup_def cloudwatchLogs_send_def print_def tolerated_def
        split: sum.splits)

lemma createLogStream_result:
  assumes "send rt (CreateLogStreamCommand (LOG_GROUP_NAME rt) LOG_STREAM_NAME) (world s) = (r, w)"
  shows "fst (createLogStream rt s) = (if tolerated r then Inr () else Inl (projl r))"
    and "world (snd (createLogStream rt s)) = w"
    and "sent (snd (createLogStream rt s))
         = sent s @ [CreateLogStreamCommand (LOG_GROUP_NAME rt) LOG_STREAM_NAME]"
  using assms
  by (simp_all add: createLogStream_def cloudwatchLogs_send_def print_def tolerated_def
        split: sum.splits)

lemma ensure_group_failed:
  assumes "send rt (CreateLogGroupCommand (LOG_GROUP_NAME rt)) (world s) = (Inl e, w)"
    and "\<not> tolerated (Inl e)"
  shows "fst (ensureLogGroupExists rt s) = Inl e"
    and "sent (snd (ensureLogGroupExists rt s)) = sent s @ [CreateLogGroupCommand (LOG_GROUP_NAME rt)]"
    and "world (snd (ensureLogGroupExists rt s)) = w"
proof -
  obtain r0 s1 where c: "createLogGroup rt s = (r0, s1)"
    by (cases "createLogGroup rt s")
  with createLogGroup_result [OF assms(1)] assms(2)
  have "r0 = Inl e" "world s1 = w"
       "sent s1 = sent s @ [CreateLogGroupCommand (LOG_GROUP_NAME rt)]"
    by simp_all
  with c show "fst (ensureLogGroupExists rt s) = Inl e"
    and "sent (snd (ensureLogGroupExists rt s))
         = sent s @ [CreateLogGroupCommand (LOG_GROUP_NAME rt)]"
    and "world (snd (ensureLogGroupExists rt s)) = w"
    by (simp_all add: ensureLogGroupExists_def)
qed

lemma ensure_group_tolerated:
  assumes "send rt (CreateLogGroupCommand (LOG_GROUP_NAME rt)) (world s) = (r1, w1)"
    and "tolerated r1"
    and "send rt (CreateLogStreamCommand (LOG_GROUP_NAME rt) LOG_STREAM_NAME) w1 = (r2, w2)"
  shows "fst (ensureLogGroupExists rt s) = (if tolerated r2 then Inr () else Inl (projl r2))"
    and "sent (snd (ensureLogGroupExists rt s))
         = sent s @ [CreateLogGroupCommand (LOG_GROUP_NAME rt),
                     CreateLogStreamCommand (LOG_GROUP_NAME rt) LOG_STREAM_NAME]"
    and "world (snd (ensureLogGroupExists rt s)) = w2"
proof -
  obtain u s1 where c: "createLogGroup rt s = (Inr u, s1)"
    using createLogGroup_result(1) [OF assms(1)] assms(2)
    by (cases "createLogGroup rt s") (auto split: if_splits)
  with createLogGroup_result(2,3) [OF assms(1)]
  have s1: "world s1 = w1" "sent s1 = sent s @ [CreateLogGroupCommand (LOG_GROUP_NAME rt)]"
    by simp_all
  from assms(3) s1 have
    "send rt (CreateLogStreamCommand (LOG_GROUP_NAME rt) LOG_STREAM_NAME) (world s1) = (r2, w2)"
    by simp
  from createLogStream_result [OF this] c s1
  show "fst (ensureLogGroupExists rt s) = (if tolerated r2 then Inr () else Inl (projl r2))"
    and "sent (snd (ensureLogGroupExists rt s))
         = sent s @ [CreateLogGroupCommand (LOG_GROUP_NAME rt),
                     CreateLogStreamCommand (LOG_GROUP_NAME rt) LOG_STREAM_NAME]"
    and "world (snd (ensureLogGroupExists rt s)) = w2"
    by (simp_all add: ensureLogGroupExists_def)
qed

lemma handler_setup_failed:
  assumes "fst (ensureLogGroupExists rt
             (print (console_log [Text ''Received event:'', EventArg event]) s)) = Inl e"
  shows "fst (sesEventsHandler rt event s) = Inl e"
    and "snd (sesEventsHandler rt event s)
         = snd (ensureLogGroupExists rt
             (print (console_log [Text ''Received event:'', EventArg event]) s))"
proof -
  obtain r0 s1 where c: "ensureLogGroupExists rt
      (print (console_log [Text ''Received event:'', EventArg event]) s) = (r0, s1)"
    by (cases "ensureLogGroupExists rt
      (print (console_log [Text ''Received event:'', EventArg event]) s)")
  with assms have "r0 = Inl e" by simp
  with c show "fst (sesEventsHandler rt event s) = Inl e"
    and "snd (sesEventsHandler rt event s)
         = snd (ensureLogGroupExists rt
             (print (console_log [Text ''Received event:'', EventArg event]) s))"
    by (simp_all add: sesEventsHandler_def Let_def)
qed

lemma not_tolerated: "\<not> tolerated r \<Longrightarrow> \<exists>e. r = Inl e"
  by (cases r) (simp_all add: tolerated_def)

lemma sent_print: "sent (print l s) = sent s"
  by (simp add: print_def)

lemma world_print: "world (print l s) = world s"
  by (simp add: print_def)

text \<open>
  Claim C5. \<^verbatim>\<open>ensureLogGroupExists\<close> sends the creation of the log group and then the
  creation of the log stream. When each of the two replies is a success, an
  \<^verbatim>\<open>ResourceAlreadyExistsException\<close> or an \<^verbatim>\<open>AccessDeniedException\<close>, it returns
  normally after the two commands. Any other failure of the first creation is thrown
  before the second command is sent, any other failure of the second is thrown after it,
  and the handler ends with that same error without sending anything more.
\<close>

theorem ensureLogGroupExists_policy:
  assumes "send rt (CreateLogGroupCommand (LOG_GROUP_NAME rt)) (world s) = (r1, w1)"
    and "send rt (CreateLogStreamCommand (LOG_GROUP_NAME rt) LOG_STREAM_NAME) w1 = (r2, w2)"
  shows
    "(tolerated r1 \<and> tolerated r2 \<longrightarrow>
        fst (ensureLogGroupExists rt s) = Inr ()
      \<and> sent (snd (ensureLogGroupExists rt s))
          = sent s @ [CreateLogGroupCommand (LOG_GROUP_NAME rt),
                      CreateLogStreamCommand (LOG_GROUP_NAME rt) LOG_STREAM_NAME])
   \<and> (\<not> tolerated r1 \<longrightarrow>
        (\<exists>e. r1 = Inl e \<and> fst (ensureLogGroupExists rt s) = Inl e
            \<and> fst (sesEventsHandler rt event s) = Inl e)
      \<and> sent (snd (ensureLogGroupExists rt s))
          = sent s @ [CreateLogGroupCommand (LOG_GROUP_NAME rt)]
      \<and> sent (snd (sesEventsHandler rt event s))
          = sent s @ [CreateLogGroupCommand (LOG_GROUP_NAME rt)])
   \<and> (tolerated r1 \<and> \<not> tolerated r2 \<longrightarrow>
        (\<exists>e. r2 = Inl e \<and> fst (ensureLogGroupExists rt s) = Inl e
            \<and> fst (sesEventsHandler rt event s) = Inl e)
      \<and> sent (snd (ensureLogGroupExists rt s))
          = sent s @ [CreateLogGroupCommand (LOG_GROUP_NAME rt),
                      CreateLogStreamCommand (LOG_GROUP_NAME rt) LOG_STREAM_NAME]
      \<and> sent (snd (sesEventsHandler rt event s))
          = sent s @ [CreateLogGroupCommand (LOG_GROUP_NAME rt),
                      CreateLogStreamCommand (LOG_GROUP_NAME rt) LOG_STREAM_NAME])"
proof (intro conjI impI)
  let ?s0 = "print (console_log [Text ''Received event:'', EventArg event]) s"
  have g0: "send rt (CreateLogGroupCommand (LOG_GROUP_NAME rt)) (world ?s0) = (r1, w1)"
    using assms(1) by (simp add: world_print)
  {
    assume t: "tolerated r1 \<and> tolerated r2"
    then have t1: "tolerated r1" and t2: "tolerated r2" by simp_all
    from ensure_group_tolerated(1) [OF assms(1) t1 assms(2)] t2
    show "fst (ensureLogGroupExists rt s) = Inr ()" by simp
    from ensure_group_tolerated(2) [OF assms(1) t1 assms(2)]
    show "sent (snd (ensureLogGroupExists rt s))
          = sent s @ [CreateLogGroupCommand (LOG_GROUP_NAME rt),
                      CreateLogStreamCommand (LOG_GROUP_NAME rt) LOG_STREAM_NAME]" .
  }
  {
    assume n: "\<not> tolerated r1"
    then obtain e where e: "r1 = Inl e" using not_tolerated by blast
    from n e have ne: "\<not> tolerated (Inl e)" by simp
    from assms(1) e have g: "send rt (CreateLogGroupCommand (LOG_GROUP_NAME rt)) (world s) = (Inl e, w1)"
      by simp
    from g0 e have g0': "send rt (CreateLogGroupCommand (LOG_GROUP_NAME rt)) (world ?s0) = (Inl e, w1)"
      by simp
    have f0: "fst (ensureLogGroupExists rt ?s0) = Inl e"
      by (rule ensure_group_failed(1) [OF g0' ne])
    show "\<exists>e. r1 = Inl e \<and> fst (ensureLogGroupExists rt s) = Inl e
            \<and> fst (sesEventsHandler rt event s) = Inl e"
      using e ensure_group_failed(1) [OF g ne] handler_setup_failed(1) [OF f0] by simp
    show "sent (snd (ensureLogGroupExists rt s))
          = sent s @ [CreateLogGroupCommand (LOG_GROUP_NAME rt)]"
      by (rule ensure_group_failed(2) [OF g ne])
    show "sent (snd (sesEventsHandler rt event s))
          = sent s @ [CreateLogGroupCommand (LOG_GROUP_NAME rt)]"
      using handler_setup_failed(2) [OF f0] ensure_group_failed(2) [OF g0' ne]
      by (simp add: sent_print)
  }
  {
    assume t: "tolerated r1 \<and> \<not> tolerated r2"
    then have t1: "tolerated r1" and n2: "\<not> tolerated r2" by simp_all
    from n2 obtain e where e: "r2 = Inl e" using not_tolerated by blast
    have f: "fst (ensureLogGroupExists rt s) = Inl e"
      using ensure_group_tolerated(1) [OF assms(1) t1 assms(2)] n2 e by simp
    have f0: "fst (ensureLogGroupExists rt ?s0) = Inl e"
      using ensure_group_tolerated(1) [OF g0 t1 assms(2)] n2 e by simp
    show "\<exists>e. r2 = Inl e \<and> fst (ensureLogGroupExists rt s) = Inl e
            \<and> fst (sesEventsHandler rt event s) = Inl e"
      using e f handler_setup_failed(1) [OF f0] by simp
    show "sent (snd (ensureLogGroupExists rt s))
          = sent s @ [CreateLogGroupCommand (LOG_GROUP_NAME rt),
                      CreateLogStreamCommand (LOG_GROUP_NAME rt) LOG_STREAM_NAME]"
      by (rule ensure_group_tolerated(2) [OF assms(1) t1 assms(2)])
    show "sent (snd (sesEventsHandler rt event s))
          = sent s @ [CreateLogGroupCommand (LOG_GROUP_NAME rt),
                      CreateLogStreamCommand (LOG_GROUP_NAME rt) LOG_STREAM_NAME]"
      using handler_setup_failed(2) [OF f0] ensure_group_tolerated(2) [OF g0 t1 assms(2)]
      by (simp add: sent_print)
  }
qed

text \<open>
  The theorem on three stores: one that answers "already exists" and "access denied",
  one that throttles the first creation, one that fails the second.
\<close>

theorem ensureLogGroupExists_policy_witness:
  "fst (ensureLogGroupExists (test_runtime (\<lambda>m. Inr JNull))
         (test_state
            [Inl \<lparr>error_name = ''ResourceAlreadyExistsException'', error_message = ''exists''\<rparr>,
             Inl \<lparr>error_name = ''AccessDeniedException'', error_message = ''denied''\<rparr>]))
     = Inr ()
   \<and> sent (snd (ensureLogGroupExists (test_runtime (\<lambda>m. Inr JNull))
         (test_state
            [Inl \<lparr>error_name = ''ResourceAlreadyExistsException'', error_message = ''exists''\<rparr>,
             Inl \<lparr>error_name = ''AccessDeniedException'', error_message = ''denied''\<rparr>])))
     = [CreateLogGroupCommand ''/aws/ses/email-events-test'',
        CreateLogStreamCommand ''/aws/ses/email-events-test'' ''ses-email-events-stream'']
   \<and> fst (sesEventsHandler (test_runtime (\<lambda>m. Inr JNull)) \<lparr>Records = []\<rparr>
         (test_state
            [Inl \<lparr>error_name = ''ThrottlingException'', error_message = ''slow down''\<rparr>]))
     = Inl \<lparr>error_name = ''ThrottlingException'', error_message = ''slow down''\<rparr>
   \<and> sent (snd (sesEventsHandler (test_runtime (\<lambda>m. Inr JNull)) \<lparr>Records = []\<rparr>
         (test_state
            [Inl \<lparr>error_name = ''ThrottlingException'', error_message = ''slow down''\<rparr>])))
     = [CreateLogGroupCommand ''/aws/ses/email-events-test'']
   \<and> fst (sesEventsHandler (test_runtime (\<lambda>m. Inr JNull)) \<lparr>Records = []\<rparr>
         (test_state
            [Inr \<lparr>logStreams = None\<rparr>,
             Inl \<lparr>error_name = ''ServiceUnavailableException'', error_message = ''down''\<rparr>]))
     = Inl \<lparr>error_name = ''ServiceUnavailableException'', error_message = ''down''\<rparr>
   \<and> sent (snd (sesEventsHandler (test_runtime (\<lambda>m. Inr JNull)) \<lparr>Records = []\<rparr>
         (test_state
            [Inr \<lparr>logStreams = None\<rparr>,
             Inl \<lparr>error_name = ''ServiceUnavailableException'', error_message = ''down''\<rparr>])))
     = [CreateLogGroupCommand ''/aws/ses/email-events-test'',
        CreateLogStreamCommand ''/aws/ses/email-events-test'' ''ses-email-events-stream'']"
proof -
  let ?rt = "test_runtime (\<lambda>m. Inr JNull)"
  have g: "send ?rt (CreateLogGroupCommand (LOG_GROUP_NAME ?rt)) (world (test_state (a # rs)))
           = (a, rs)" for a rs
    by (simp add: test_runtime_def scripted_send_def test_state_def)
  have st: "send ?rt (CreateLogStreamCommand (LOG_GROUP_NAME ?rt) LOG_STREAM_NAME) (b # rs)
           = (b, rs)" for b rs
    by (simp add: test_runtime_def scripted_send_def)
  have st0: "send ?rt (CreateLogStreamCommand (LOG_GROUP_NAME ?rt) LOG_STREAM_NAME) []
           = (Inr \<lparr>logStreams = None\<rparr>, [])"
    by (simp add: test_runtime_def scripted_send_def)
  have n: "LOG_GROUP_NAME ?rt = ''/aws/ses/email-events-test''"
    by (simp add: test_runtime_def)
  let ?rae = "Inl \<lparr>error_name = ''ResourceAlreadyExistsException'', error_message = ''exists''\<rparr>
               :: js_error + response"
  let ?ade = "Inl \<lparr>error_name = ''AccessDeniedException'', error_message = ''denied''\<rparr>
               :: js_error + response"
  let ?thr = "Inl \<lparr>error_name = ''ThrottlingException'', error_message = ''slow down''\<rparr>
               :: js_error + response"
  let ?ok = "Inr \<lparr>logStreams = None\<rparr> :: js_error + response"
  let ?una = "Inl \<lparr>error_name = ''ServiceUnavailableException'', error_message = ''down''\<rparr>
               :: js_error + response"
  note a = ensureLogGroupExists_policy
    [OF g [of ?rae "[?ade]"] st [of ?ade "[]"], of "\<lparr>Records = []\<rparr>"]
  note b = ensureLogGroupExists_policy
    [OF g [of ?thr "[]"] st0, of "\<lparr>Records = []\<rparr>"]
  note c = ensureLogGroupExists_policy
    [OF g [of ?ok "[?una]"] st [of ?una "[]"], of "\<lparr>Records = []\<rparr>"]
  show ?thesis
    using a b c
    by (simp add: tolerated_def n LOG_STREAM_NAME_def test_state_def)
qed

lemma getSequenceToken_result:
  assumes "send rt (DescribeLogStreamsCommand (LOG_GROUP_NAME rt) LOG_STREAM_NAME) (world s) = (r, w)"
  shows "fst (getSequenceToken rt s)
         = Inr (case r of
                  Inl e \<Rightarrow> JNull
                | Inr resp \<Rightarrow>
                    (case logStreams resp of
                       None \<Rightarrow> JNull
                     | Some [] \<Rightarrow> JNull
                     | Some (st # sts) \<Rightarrow> uploadSequenceToken st))"
    and "sent (snd (getSequenceToken rt s))
         = sent s @ [DescribeLogStreamsCommand (LOG_GROUP_NAME rt) LOG_STREAM_NAME]"
    and "world (snd (getSequenceToken rt s)) = w"
  using assms
  by (simp_all add: getSequenceToken_def cloudwatchLogs_send_def print_def
        split: sum.splits option.splits list.splits)

text \<open>
  Claim C2, as amended. \<^verbatim>\<open>getSequenceToken\<close> sends one \<^verbatim>\<open>DescribeLogStreams\<close> command
  with the fixed stream name as the name prefix and never throws. It returns null when the
  command fails and when the reply lists no stream, and otherwise the
  \<^verbatim>\<open>uploadSequenceToken\<close> of the first stream of the reply, whatever that stream is called
  (undefined when that stream has none).
\<close>

theorem getSequenceToken_first_stream:
  assumes "send rt (DescribeLogStreamsCommand (LOG_GROUP_NAME rt) LOG_STREAM_NAME) (world s) = (r, w)"
  shows "(\<exists>v. fst (getSequenceToken rt s) = Inr v)
   \<and> sent (snd (getSequenceToken rt s))
       = sent s @ [DescribeLogStreamsCommand (LOG_GROUP_NAME rt) LOG_STREAM_NAME]
   \<and> ((\<exists>e. r = Inl e) \<longrightarrow> fst (getSequenceToken rt s) = Inr JNull)
   \<and> (\<forall>resp. r = Inr resp \<and> (logStreams resp = None \<or> logStreams resp = Some [])
         \<longrightarrow> fst (getSequenceToken rt s) = Inr JNull)
   \<and> (\<forall>resp st sts. r = Inr resp \<and> logStreams resp = Some (st # sts)
         \<longrightarrow> fst (getSequenceToken rt s) = Inr (uploadSequenceToken st))"
  using getSequenceToken_result [OF assms] by auto

text \<open>The theorem on a failing lookup, an empty reply and a reply with two streams.\<close>

theorem getSequenceToken_first_stream_witness:
  "fst (getSequenceToken (test_runtime (\<lambda>m. Inr JNull))
     (test_state [Inl \<lparr>error_name = ''ThrottlingException'', error_message = ''slow down''\<rparr>]))
     = Inr JNull
   \<and> fst (getSequenceToken (test_runtime (\<lambda>m. Inr JNull))
       (test_state [Inr \<lparr>logStreams = Some []\<rparr>])) = Inr JNull
   \<and> fst (getSequenceToken (test_runtime (\<lambda>m. Inr JNull))
       (test_state [Inr \<lparr>logStreams =
          Some [LogStream ''ses-email-events-stream'' (JStr ''49590302''),
                LogStream ''ses-email-events-stream-old'' (JStr ''7'')]\<rparr>]))
     = Inr (JStr ''49590302'')
   \<and> sent (snd (getSequenceToken (test_runtime (\<lambda>m. Inr JNull))
       (test_state [Inr \<lparr>logStreams = Some []\<rparr>])))
     = [DescribeLogStreamsCommand ''/aws/ses/email-events-test'' ''ses-email-events-stream'']"
proof -
  let ?rt = "test_runtime (\<lambda>m. Inr JNull)"
  have d: "send ?rt (DescribeLogStreamsCommand (LOG_GROUP_NAME ?rt) LOG_STREAM_NAME)
             (world (test_state (a # rs))) = (a, rs)" for a rs
    by (simp add: test_runtime_def scripted_send_def test_state_def)
  have n: "LOG_GROUP_NAME ?rt = ''/aws/ses/email-events-test''"
    by (simp add: test_runtime_def)
  note a = getSequenceToken_first_stream
    [OF d [of "Inl \<lparr>error_name = ''ThrottlingException'', error_message = ''slow down''\<rparr>" "[]"]]
  note b = getSequenceToken_first_stream [OF d [of "Inr \<lparr>logStreams = Some []\<rparr>" "[]"]]
  note c = getSequenceToken_first_stream
    [OF d [of "Inr \<lparr>logStreams =
          Some [LogStream ''ses-email-events-stream'' (JStr ''49590302''),
                LogStream ''ses-email-events-stream-old'' (JStr ''7'')]\<rparr>" "[]"]]
  show ?thesis
    using a b c by (simp add: n LOG_STREAM_NAME_def test_state_def)
qed

text \<open>
  As the specification states it, the property fails: when the reply to the prefix query holds only a stream with a
  longer name, \<^verbatim>\<open>getSequenceToken\<close> returns that stream's cursor, where a lookup by exact
  name finds none.
\<close>

theorem getSequenceToken_exact_name_counterexample:
  "fst (getSequenceToken (test_runtime (\<lambda>m. Inr JNull))
     (test_state [Inr \<lparr>logStreams =
        Some [LogStream ''ses-email-events-stream-old'' (JStr ''7'')]\<rparr>]))
     = Inr (JStr ''7'')
   \<and> cursor_by_exact_name [LogStream ''ses-email-events-stream-old'' (JStr ''7'')] = JNull"
  by (simp add: getSequenceToken_def cloudwatchLogs_send_def test_runtime_def scripted_send_def
        test_state_def cursor_by_exact_name_def LOG_STREAM_NAME_def)

lemma match_token_sound:
  "match_token m = Some tok \<Longrightarrow>
   \<exists>pre rest. m = pre @ token_prefix @ tok @ rest \<and> tok \<noteq> []
      \<and> (\<forall>c\<in>set tok. \<not> is_space c)"
proof (induction m)
  case Nil
  then show ?case by simp
next
  case (Cons c cs)
  show ?case
  proof (cases "take (length token_prefix) (c # cs) = token_prefix
      \<and> takeWhile (\<lambda>x. \<not> is_space x) (drop (length token_prefix) (c # cs)) \<noteq> []")
    case True
    with Cons.prems
    have tok: "tok = takeWhile (\<lambda>x. \<not> is_space x) (drop (length token_prefix) (c # cs))"
      and pre: "take (length token_prefix) (c # cs) = token_prefix" and ne: "tok \<noteq> []"
      by simp_all
    have "c # cs = take (length token_prefix) (c # cs) @ drop (length token_prefix) (c # cs)"
      by simp
    also have "drop (length token_prefix) (c # cs)
        = tok @ dropWhile (\<lambda>x. \<not> is_space x) (drop (length token_prefix) (c # cs))"
      unfolding tok by simp
    finally have "c # cs = [] @ token_prefix @ tok
        @ dropWhile (\<lambda>x. \<not> is_space x) (drop (length token_prefix) (c # cs))"
      using pre by simp
    moreover have "\<forall>c\<in>set tok. \<not> is_space c"
      unfolding tok by (auto dest: set_takeWhileD)
    ultimately show ?thesis using ne by blast
  next
    case False
    with Cons.prems have "match_token cs = Some tok"
      by (simp split: if_splits)
    from Cons.IH [OF this] obtain pre rest where
      "cs = pre @ token_prefix @ tok @ rest" "tok \<noteq> []" "\<forall>c\<in>set tok. \<not> is_space c"
      by blast
    then have "c # cs = (c # pre) @ token_prefix @ tok @ rest" by simp
    with \<open>tok \<noteq> []\<close> \<open>\<forall>c\<in>set tok. \<not> is_space c\<close> show ?thesis by blast
  qed
qed

lemma match_token_example:
  "match_token ''The given sequenceToken is invalid. The next expected sequenceToken is: ABC123''
   = Some ''ABC123''"
  by (simp add: token_prefix_def is_space_def)

lemma match_token_none_example: "match_token ''Rate exceeded'' = None"
  by (simp add: token_prefix_def is_space_def)


lemma getSequenceToken_sent:
  "sent (snd (getSequenceToken rt s))
   = sent s @ [DescribeLogStreamsCommand (LOG_GROUP_NAME rt) LOG_STREAM_NAME]"
  by (simp add: getSequenceToken_def cloudwatchLogs_send_def print_def
        split: prod.splits sum.splits option.splits list.splits)

lemma writeToCloudWatch_retry_result:
  assumes "send rt (PutLogEventsCommand
              \<lparr>logGroupName = LOG_GROUP_NAME rt, logStreamName = LOG_STREAM_NAME,
               logEvents = [\<lparr>timestamp = Date_now rt (world s),
                             message = JSON_stringify rt msg\<rparr>],
               sequenceToken = map_option JStr (match_token (error_message error))\<rparr>)
            (world s) = (r2, w3)"
  shows "fst (writeToCloudWatch_retry rt msg error s)
         = Inr (case r2 of Inl e \<Rightarrow> False | Inr resp \<Rightarrow> True)"
    and "sent (snd (writeToCloudWatch_retry rt msg error s))
         = sent s @ [PutLogEventsCommand
              \<lparr>logGroupName = LOG_GROUP_NAME rt, logStreamName = LOG_STREAM_NAME,
               logEvents = [\<lparr>timestamp = Date_now rt (world s),
                             message = JSON_stringify rt msg\<rparr>],
               sequenceToken = map_option JStr (match_token (error_message error))\<rparr>]"
    and "world (snd (writeToCloudWatch_retry rt msg error s)) = w3"
  using assms
  by (simp_all add: writeToCloudWatch_retry_def cloudwatchLogs_send_def print_def Let_def
        split: sum.splits)

text \<open>
  Claim C1, as amended. When the first \<^verbatim>\<open>PutLogEvents\<close> fails with an
  \<^verbatim>\<open>InvalidSequenceTokenException\<close>, \<^verbatim>\<open>writeToCloudWatch\<close> sends exactly one more
  \<^verbatim>\<open>PutLogEvents\<close> for the same message and returns true when that one succeeds and false
  when it fails. The retry carries the token that the pattern finds in the error message,
  a run of characters after the fixed text, and carries no token when the pattern does not
  match: the retry is sent in that case too.
\<close>

theorem writeToCloudWatch_conflict_retry:
  assumes "getSequenceToken rt s = (Inr token, s1)"
    and "send rt (PutLogEventsCommand
              \<lparr>logGroupName = LOG_GROUP_NAME rt, logStreamName = LOG_STREAM_NAME,
               logEvents = [\<lparr>timestamp = Date_now rt (world s1),
                             message = JSON_stringify rt msg\<rparr>],
               sequenceToken = (if truthy token then Some token else None)\<rparr>)
            (world s1) = (Inl error, w2)"
    and "error_name error = ''InvalidSequenceTokenException''"
    and "send rt (PutLogEventsCommand
              \<lparr>logGroupName = LOG_GROUP_NAME rt, logStreamName = LOG_STREAM_NAME,
               logEvents = [\<lparr>timestamp = Date_now rt w2,
                             message = JSON_stringify rt msg\<rparr>],
               sequenceToken = map_option JStr (match_token (error_message error))\<rparr>)
            w2 = (r2, w3)"
  shows "fst (writeToCloudWatch rt msg s)
           = Inr (case r2 of Inl retryError \<Rightarrow> False | Inr resp \<Rightarrow> True)
   \<and> sent (snd (writeToCloudWatch rt msg s))
       = sent s @
         [DescribeLogStreamsCommand (LOG_GROUP_NAME rt) LOG_STREAM_NAME,
          PutLogEventsCommand
              \<lparr>logGroupName = LOG_GROUP_NAME rt, logStreamName = LOG_STREAM_NAME,
               logEvents = [\<lparr>timestamp = Date_now rt (world s1),
                             message = JSON_stringify rt msg\<rparr>],
               sequenceToken = (if truthy token then Some token else None)\<rparr>,
          PutLogEventsCommand
              \<lparr>logGroupName = LOG_GROUP_NAME rt, logStreamName = LOG_STREAM_NAME,
               logEvents = [\<lparr>timestamp = Date_now rt w2,
                             message = JSON_stringify rt msg\<rparr>],
               sequenceToken = map_option JStr (match_token (error_message error))\<rparr>]
   \<and> world (snd (writeToCloudWatch rt msg s)) = w3
   \<and> (\<forall>tok. match_token (error_message error) = Some tok \<longrightarrow>
         (\<exists>pre rest. error_message error = pre @ token_prefix @ tok @ rest
            \<and> tok \<noteq> [] \<and> (\<forall>c\<in>set tok. \<not> is_space c)))"
proof -
  let ?p1 = "PutLogEventsCommand
              \<lparr>logGroupName = LOG_GROUP_NAME rt, logStreamName = LOG_STREAM_NAME,
               logEvents = [\<lparr>timestamp = Date_now rt (world s1),
                             message = JSON_stringify rt msg\<rparr>],
               sequenceToken = (if truthy token then Some token else None)\<rparr>"
  let ?s2 = "s1\<lparr>world := w2, sent := sent s1 @ [?p1]\<rparr>"
  let ?s3 = "print (console_error
                 [Text (''Error writing to CloudWatch Logs: '' @ error_message error)]) ?s2"
  have s1: "sent s1 = sent s @ [DescribeLogStreamsCommand (LOG_GROUP_NAME rt) LOG_STREAM_NAME]"
    using getSequenceToken_sent [of rt s] assms(1) by simp
  have w: "writeToCloudWatch rt msg s = writeToCloudWatch_retry rt msg error ?s3"
    using assms(1,2,3)
    by (simp add: writeToCloudWatch_def cloudwatchLogs_send_def Let_def
          writeToCloudWatch_catch_def)
  have r: "send rt (PutLogEventsCommand
              \<lparr>logGroupName = LOG_GROUP_NAME rt, logStreamName = LOG_STREAM_NAME,
               logEvents = [\<lparr>timestamp = Date_now rt (world ?s3),
                             message = JSON_stringify rt msg\<rparr>],
               sequenceToken = map_option JStr (match_token (error_message error))\<rparr>)
            (world ?s3) = (r2, w3)"
    using assms(4) by (simp add: print_def)
  show ?thesis
    unfolding w
    using writeToCloudWatch_retry_result [OF r] s1 match_token_sound [of "error_message error"]
    by (simp add: print_def)
qed

lemmas test_eval =
  test_runtime_def scripted_send_def test_state_def cloudwatchLogs_send_def print_def
  LOG_STREAM_NAME_def

text \<open>
  The theorem on a store that reports the next token \<^verbatim>\<open>ABC123\<close> and then accepts the
  retry, and on one that rejects the retry as well.
\<close>

theorem writeToCloudWatch_conflict_retry_witness:
  "fst (writeToCloudWatch (test_runtime (\<lambda>m. Inr JNull)) (JObj [])
     (test_state
        [Inr \<lparr>logStreams = Some [LogStream ''ses-email-events-stream'' (JStr ''OLD'')]\<rparr>,
         Inl \<lparr>error_name = ''InvalidSequenceTokenException'',
              error_message = ''The given sequenceToken is invalid. The next expected sequenceToken is: ABC123''\<rparr>,
         Inr \<lparr>logStreams = None\<rparr>])) = Inr True
   \<and> sent (snd (writeToCloudWatch (test_runtime (\<lambda>m. Inr JNull)) (JObj [])
     (test_state
        [Inr \<lparr>logStreams = Some [LogStream ''ses-email-events-stream'' (JStr ''OLD'')]\<rparr>,
         Inl \<lparr>error_name = ''InvalidSequenceTokenException'',
              error_message = ''The given sequenceToken is invalid. The next expected sequenceToken is: ABC123''\<rparr>,
         Inr \<lparr>logStreams = None\<rparr>])))
     = [DescribeLogStreamsCommand ''/aws/ses/email-events-test'' ''ses-email-events-stream'',
        PutLogEventsCommand
          \<lparr>logGroupName = ''/aws/ses/email-events-test'',
           logStreamName = ''ses-email-events-stream'',
           logEvents = [\<lparr>timestamp = 1672574400000, message = ''{}''\<rparr>],
           sequenceToken = Some (JStr ''OLD'')\<rparr>,
        PutLogEventsCommand
          \<lparr>logGroupName = ''/aws/ses/email-events-test'',
           logStreamName = ''ses-email-events-stream'',
           logEvents = [\<lparr>timestamp = 1672574400000, message = ''{}''\<rparr>],
           sequenceToken = Some (JStr ''ABC123'')\<rparr>]
   \<and> fst (writeToCloudWatch (test_runtime (\<lambda>m. Inr JNull)) (JObj [])
     (test_state
        [Inr \<lparr>logStreams = Some [LogStream ''ses-email-events-stream'' (JStr ''OLD'')]\<rparr>,
         Inl \<lparr>error_name = ''InvalidSequenceTokenException'',
              error_message = ''The given sequenceToken is invalid. The next expected sequenceToken is: ABC123''\<rparr>,
         Inl \<lparr>error_name = ''InvalidSequenceTokenException'',
              error_message = ''The given sequenceToken is invalid. The next expected sequenceToken is: XYZ''\<rparr>,
         Inr \<lparr>logStreams = None\<rparr>])) = Inr False
   \<and> length (sent (snd (writeToCloudWatch (test_runtime (\<lambda>m. Inr JNull)) (JObj [])
     (test_state
        [Inr \<lparr>logStreams = Some [LogStream ''ses-email-events-stream'' (JStr ''OLD'')]\<rparr>,
         Inl \<lparr>error_name = ''InvalidSequenceTokenException'',
              error_message = ''The given sequenceToken is invalid. The next expected sequenceToken is: ABC123''\<rparr>,
         Inl \<lparr>error_name = ''InvalidSequenceTokenException'',
              error_message = ''The given sequenceToken is invalid. The next expected sequenceToken is: XYZ''\<rparr>,
         Inr \<lparr>logStreams = None\<rparr>])))) = 3"
proof -
  let ?rt = "test_runtime (\<lambda>m. Inr JNull)"
  let ?d = "Inr \<lparr>logStreams = Some [LogStream ''ses-email-events-stream'' (JStr ''OLD'')]\<rparr>
              :: js_error + response"
  let ?e = "\<lparr>error_name = ''InvalidSequenceTokenException'',
              error_message = ''The given sequenceToken is invalid. The next expected sequenceToken is: ABC123''\<rparr>"
  let ?e2 = "\<lparr>error_name = ''InvalidSequenceTokenException'',
              error_message = ''The given sequenceToken is invalid. The next expected sequenceToken is: XYZ''\<rparr>"
  let ?ok = "Inr \<lparr>logStreams = None\<rparr> :: js_error + response"
  note a = writeToCloudWatch_conflict_retry
    [where rt = ?rt and msg = "JObj []" and s = "test_state [?d, Inl ?e, ?ok]"
       and token = "JStr ''OLD''"
       and ?s1.0 = "\<lparr>world = [Inl ?e, ?ok],
            sent = [DescribeLogStreamsCommand ''/aws/ses/email-events-test'' ''ses-email-events-stream''],
            console = []\<rparr>"
       and error = ?e and ?w2.0 = "[?ok]" and ?r2.0 = ?ok and ?w3.0 = "[]"]
  note b = writeToCloudWatch_conflict_retry
    [where rt = ?rt and msg = "JObj []" and s = "test_state [?d, Inl ?e, Inl ?e2, ?ok]"
       and token = "JStr ''OLD''"
       and ?s1.0 = "\<lparr>world = [Inl ?e, Inl ?e2, ?ok],
            sent = [DescribeLogStreamsCommand ''/aws/ses/email-events-test'' ''ses-email-events-stream''],
            console = []\<rparr>"
       and error = ?e and ?w2.0 = "[Inl ?e2, ?ok]" and ?r2.0 = "Inl ?e2" and ?w3.0 = "[?ok]"]
  show ?thesis
    using a b
    by (simp add: test_eval getSequenceToken_def match_token_example del: match_token.simps)
qed

text \<open>
  As the specification states it, the property fails in its last part: a conflict whose message does not hold the
  pattern is still retried, without a token, and the append returns true when the retry
  succeeds.
\<close>

theorem writeToCloudWatch_unparsed_counterexample:
  "match_token ''Rate exceeded'' = None
   \<and> fst (writeToCloudWatch (test_runtime (\<lambda>m. Inr JNull)) (JObj [])
     (test_state
        [Inr \<lparr>logStreams = Some [LogStream ''ses-email-events-stream'' (JStr ''OLD'')]\<rparr>,
         Inl \<lparr>error_name = ''InvalidSequenceTokenException'',
              error_message = ''Rate exceeded''\<rparr>,
         Inr \<lparr>logStreams = None\<rparr>])) = Inr True
   \<and> sent (snd (writeToCloudWatch (test_runtime (\<lambda>m. Inr JNull)) (JObj [])
     (test_state
        [Inr \<lparr>logStreams = Some [LogStream ''ses-email-events-stream'' (JStr ''OLD'')]\<rparr>,
         Inl \<lparr>error_name = ''InvalidSequenceTokenException'',
              error_message = ''Rate exceeded''\<rparr>,
         Inr \<lparr>logStreams = None\<rparr>])))
     = [DescribeLogStreamsCommand ''/aws/ses/email-events-test'' ''ses-email-events-stream'',
        PutLogEventsCommand
          \<lparr>logGroupName = ''/aws/ses/email-events-test'',
           logStreamName = ''ses-email-events-stream'',
           logEvents = [\<lparr>timestamp = 1672574400000, message = ''{}''\<rparr>],
           sequenceToken = Some (JStr ''OLD'')\<rparr>,
        PutLogEventsCommand
          \<lparr>logGroupName = ''/aws/ses/email-events-test'',
           logStreamName = ''ses-email-events-stream'',
           logEvents = [\<lparr>timestamp = 1672574400000, message = ''{}''\<rparr>],
           sequenceToken = None\<rparr>]"
  by (simp add: test_eval getSequenceToken_def writeToCloudWatch_def writeToCloudWatch_catch_def
        writeToCloudWatch_retry_def Let_def match_token_none_example
        del: match_token.simps)

section \<open>Claims about the Batch Dispatcher\<close>

lemmas handler_eval =
  sesEventsHandler_record_def sesEventsHandler_prepare_def legacy_to_eventType_def
  get_prop_def writeToCloudWatch_def getSequenceToken_def writeToCloudWatch_catch_def
  writeToCloudWatch_retry_def test_parse_def

lemma truthy_prop_obj: "truthy (own_prop m k) \<Longrightarrow> \<exists>fs. m = JObj fs"
  by (cases m) simp_all

lemma legacy_to_eventType_obj: "\<exists>fs'. legacy_to_eventType (JObj fs) = JObj fs'"
  by (simp add: legacy_to_eventType_def)


lemma record_undecodable:
  assumes "EventSource r = ''aws:sns''"
    and "JSON_parse rt (Message (Sns r)) = Inl parseError"
  shows "sesEventsHandler_record rt r s
         = (Inr (), s\<lparr>console := console s @
              [console_log [Text ''Processing SNS record:'', RecordArg r],
               console_log [Text ''Raw SNS Message:'', Text (Message (Sns r))],
               console_error [Text ''Failed to parse SNS message:'',
                              Text (error_message parseError)],
               console_error [Text ''Raw message content:'', Text (Message (Sns r))]]\<rparr>)"
  using assms
  by (simp add: sesEventsHandler_record_def sesEventsHandler_prepare_def print_def Let_def)


text \<open>A message that decodes to null ends the loop with a TypeError (line 253).\<close>

lemma record_null_payload:
  assumes "EventSource r = ''aws:sns''"
    and "JSON_parse rt (Message (Sns r)) = Inr JNull"
  shows "fst (sesEventsHandler_record rt r s)
         = Inl (TypeError (''Cannot read properties of null or undefined: '' @ ''eventType''))"
    and "fst (sesEventsHandler_loop rt (r # post) s)
         = Inl (TypeError (''Cannot read properties of null or undefined: '' @ ''eventType''))"
  using assms
  by (simp_all add: sesEventsHandler_record_def sesEventsHandler_prepare_def get_prop_def Let_def)

lemma prepare_relevant:
  assumes "EventSource r = ''aws:sns''"
    and "JSON_parse rt (Message (Sns r)) = Inr m"
    and "truthy (own_prop m ''eventType'') \<or> truthy (own_prop m ''notificationType'')"
  shows "\<exists>ev. processSESEvent (toISOString rt (world s)) (legacy_to_eventType m) = Inr ev
      \<and> sesEventsHandler_prepare rt r s
        = (Inr (Relevant (legacy_to_eventType m) ev),
           s\<lparr>console := console s @
              [console_log [Text ''Processing SNS record:'', RecordArg r],
               console_log [Text ''Raw SNS Message:'', Text (Message (Sns r))]]\<rparr>)"
proof -
  from assms(3) obtain fs where m: "m = JObj fs"
    using truthy_prop_obj by blast
  obtain fs' where l: "legacy_to_eventType m = JObj fs'"
    using legacy_to_eventType_obj m by blast
  obtain ev where ev: "processSESEvent (toISOString rt (world s)) (JObj fs') = Inr ev"
    by (simp add: processSESEvent_obj)
  have n: "get_prop m ''eventType'' = Inr (own_prop m ''eventType'')"
    using m by (simp add: get_prop_def)
  show ?thesis
    using assms ev n unfolding l [symmetric]
    by (simp add: sesEventsHandler_prepare_def print_def Let_def)
qed

lemma loop_append:
  "sesEventsHandler_loop rt (xs @ ys) s
   = (case sesEventsHandler_loop rt xs s of
        (Inl e, s1) \<Rightarrow> (Inl e, s1)
      | (Inr u, s1) \<Rightarrow> sesEventsHandler_loop rt ys s1)"
  by (induction xs arbitrary: s) (auto split: prod.splits sum.splits)
















text \<open>
  Claim C7. A record from SNS whose message \<^verbatim>\<open>JSON.parse\<close> rejects prints two lines and
  two error lines on the console, sends nothing to the store and throws nothing; the loop
  goes on with the records after it, wherever in the batch the record stands.
\<close>

theorem undecodable_record_skipped:
  assumes "EventSource r = ''aws:sns''"
    and "JSON_parse rt (Message (Sns r)) = Inl parseError"
  shows "sesEventsHandler_record rt r s
         = (Inr (), s\<lparr>console := console s @
              [console_log [Text ''Processing SNS record:'', RecordArg r],
               console_log [Text ''Raw SNS Message:'', Text (Message (Sns r))],
               console_error [Text ''Failed to parse SNS message:'',
                              Text (error_message parseError)],
               console_error [Text ''Raw message content:'', Text (Message (Sns r))]]\<rparr>)
   \<and> sent (snd (sesEventsHandler_record rt r s)) = sent s
   \<and> world (snd (sesEventsHandler_record rt r s)) = world s
   \<and> sesEventsHandler_loop rt (r # post) s
       = sesEventsHandler_loop rt post (s\<lparr>console := console s @
              [console_log [Text ''Processing SNS record:'', RecordArg r],
               console_log [Text ''Raw SNS Message:'', Text (Message (Sns r))],
               console_error [Text ''Failed to parse SNS message:'',
                              Text (error_message parseError)],
               console_error [Text ''Raw message content:'', Text (Message (Sns r))]]\<rparr>)
   \<and> sesEventsHandler_loop rt (pre @ r # post) s
       = (case sesEventsHandler_loop rt pre s of
            (Inl e, s1) \<Rightarrow> (Inl e, s1)
          | (Inr u, s1) \<Rightarrow>
              sesEventsHandler_loop rt post (s1\<lparr>console := console s1 @
                [console_log [Text ''Processing SNS record:'', RecordArg r],
                 console_log [Text ''Raw SNS Message:'', Text (Message (Sns r))],
                 console_error [Text ''Failed to parse SNS message:'',
                                Text (error_message parseError)],
                 console_error [Text ''Raw message content:'', Text (Message (Sns r))]]\<rparr>))"
proof -
  note k = record_undecodable [OF assms]
  have l: "sesEventsHandler_loop rt (r # post) s'
       = sesEventsHandler_loop rt post (s'\<lparr>console := console s' @
              [console_log [Text ''Processing SNS record:'', RecordArg r],
               console_log [Text ''Raw SNS Message:'', Text (Message (Sns r))],
               console_error [Text ''Failed to parse SNS message:'',
                              Text (error_message parseError)],
               console_error [Text ''Raw message content:'', Text (Message (Sns r))]]\<rparr>)" for s'
    by (simp add: k)
  show ?thesis
    by (intro conjI) (simp_all add: k l loop_append split: prod.splits sum.splits)
qed

text \<open>The theorem on a batch of an HTML page followed by a bounce.\<close>

theorem undecodable_record_skipped_witness:
  "sesEventsHandler_record (test_runtime test_parse)
     \<lparr>EventSource = ''aws:sns'', Sns = \<lparr>Message = ''<html>''\<rparr>\<rparr> (test_state [])
   = (Inr (),
      \<lparr>world = [], sent = [],
       console =
         [console_log [Text ''Processing SNS record:'',
            RecordArg \<lparr>EventSource = ''aws:sns'', Sns = \<lparr>Message = ''<html>''\<rparr>\<rparr>],
          console_log [Text ''Raw SNS Message:'', Text ''<html>''],
          console_error [Text ''Failed to parse SNS message:'', Text ''Unexpected token''],
          console_error [Text ''Raw message content:'', Text ''<html>'']]\<rparr>)
   \<and> fst (sesEventsHandler_loop (test_runtime test_parse)
       [\<lparr>EventSource = ''aws:sns'', Sns = \<lparr>Message = ''<html>''\<rparr>\<rparr>,
        \<lparr>EventSource = ''aws:sns'', Sns = \<lparr>Message = ''{\"eventType\":\"Bounce\"}''\<rparr>\<rparr>]
       (test_state [])) = Inr ()
   \<and> sent (snd (sesEventsHandler_loop (test_runtime test_parse)
       [\<lparr>EventSource = ''aws:sns'', Sns = \<lparr>Message = ''<html>''\<rparr>\<rparr>,
        \<lparr>EventSource = ''aws:sns'', Sns = \<lparr>Message = ''{\"eventType\":\"Bounce\"}''\<rparr>\<rparr>]
       (test_state [])))
     = [DescribeLogStreamsCommand ''/aws/ses/email-events-test'' ''ses-email-events-stream'',
        PutLogEventsCommand
          \<lparr>logGroupName = ''/aws/ses/email-events-test'',
           logStreamName = ''ses-email-events-stream'',
           logEvents = [\<lparr>timestamp = 1672574400000, message = ''{}''\<rparr>],
           sequenceToken = None\<rparr>]"
proof -
  let ?rt = "test_runtime test_parse"
  let ?bad = "\<lparr>EventSource = ''aws:sns'', Sns = \<lparr>Message = ''<html>''\<rparr>\<rparr>"
  let ?good = "\<lparr>EventSource = ''aws:sns'', Sns = \<lparr>Message = ''{\"eventType\":\"Bounce\"}''\<rparr>\<rparr>"
  let ?e = "\<lparr>error_name = ''SyntaxError'', error_message = ''Unexpected token''\<rparr>"
  have a1: "EventSource ?bad = ''aws:sns''" by simp
  have a2: "JSON_parse ?rt (Message (Sns ?bad)) = Inl ?e"
    by (simp add: test_runtime_def test_parse_def)
  note t = undecodable_record_skipped [OF a1 a2, of "test_state []" "[?good]" "[]"]
  define s1 :: "(js_error + response) list state" where
    "s1 = \<lparr>world = [], sent = [],
       console =
         [console_log [Text ''Processing SNS record:'', RecordArg ?bad],
          console_log [Text ''Raw SNS Message:'', Text ''<html>''],
          console_error [Text ''Failed to parse SNS message:'', Text ''Unexpected token''],
          console_error [Text ''Raw message content:'', Text ''<html>'']]\<rparr>"
  have u: "test_state []\<lparr>console := console (test_state []) @
              [console_log [Text ''Processing SNS record:'', RecordArg ?bad],
               console_log [Text ''Raw SNS Message:'', Text (Message (Sns ?bad))],
               console_error [Text ''Failed to parse SNS message:'',
                              Text (error_message ?e)],
               console_error [Text ''Raw message content:'', Text (Message (Sns ?bad))]]\<rparr>
           = s1"
    by (simp add: test_state_def s1_def)
  have g: "sesEventsHandler_record ?rt ?good s1
           = (Inr (), snd (sesEventsHandler_record ?rt ?good s1))"
    "sent (snd (sesEventsHandler_record ?rt ?good s1))
     = [DescribeLogStreamsCommand ''/aws/ses/email-events-test'' ''ses-email-events-stream'',
        PutLogEventsCommand
          \<lparr>logGroupName = ''/aws/ses/email-events-test'',
           logStreamName = ''ses-email-events-stream'',
           logEvents = [\<lparr>timestamp = 1672574400000, message = ''{}''\<rparr>],
           sequenceToken = None\<rparr>]"
    by (simp_all add: handler_eval test_eval js_eval s1_def)
  have l: "sesEventsHandler_loop ?rt [?good] s1
           = (Inr (), snd (sesEventsHandler_record ?rt ?good s1))"
    using g(1) by (simp split: prod.splits sum.splits)
  from t have r: "sesEventsHandler_record ?rt ?bad (test_state []) = (Inr (), s1)"
    unfolding u by (elim conjE)
  from t have "sesEventsHandler_loop ?rt [?bad, ?good] (test_state [])
               = sesEventsHandler_loop ?rt [?good] s1"
    unfolding u by (elim conjE)
  with l g(2) have
    "fst (sesEventsHandler_loop ?rt [?bad, ?good] (test_state [])) = Inr ()"
    "sent (snd (sesEventsHandler_loop ?rt [?bad, ?good] (test_state [])))
     = [DescribeLogStreamsCommand ''/aws/ses/email-events-test'' ''ses-email-events-stream'',
        PutLogEventsCommand
          \<lparr>logGroupName = ''/aws/ses/email-events-test'',
           logStreamName = ''ses-email-events-stream'',
           logEvents = [\<lparr>timestamp = 1672574400000, message = ''{}''\<rparr>],
           sequenceToken = None\<rparr>]"
    by simp_all
  with r show ?thesis unfolding s1_def by (intro conjI)
qed

lemma processSESEvent_eventType:
  "processSESEvent now (JObj fs) = Inr ev \<Longrightarrow>
   own_prop ev ''eventType'' = js_or (own_prop (JObj fs) ''eventType'') unknown"
  by (auto simp: processSESEvent_obj event_details_base own_prop_obj)

lemma processSESEvent_rawEvent:
  "processSESEvent now (JObj fs) = Inr ev \<Longrightarrow> own_prop ev ''rawEvent'' = JObj fs"
  by (auto simp: processSESEvent_obj event_details_base own_prop_obj)

text \<open>
  Claim C9, as amended. When the decoded message has a truthy \<^verbatim>\<open>notificationType\<close>,
  whether or not it has an \<^verbatim>\<open>eventType\<close> too, the dispatcher sets \<^verbatim>\<open>eventType\<close> to the
  value of \<^verbatim>\<open>notificationType\<close> before it calls \<^verbatim>\<open>processSESEvent\<close>, and the record
  built carries that value as its \<^verbatim>\<open>eventType\<close>.
\<close>

theorem legacy_discriminator_precedence:
  assumes "EventSource r = ''aws:sns''"
    and "JSON_parse rt (Message (Sns r)) = Inr m"
    and "truthy (own_prop m ''notificationType'')"
  shows "\<exists>ev s2.
      sesEventsHandler_prepare rt r s
        = (Inr (Relevant (set_prop m ''eventType'' (own_prop m ''notificationType'')) ev), s2)
    \<and> processSESEvent (toISOString rt (world s))
          (set_prop m ''eventType'' (own_prop m ''notificationType'')) = Inr ev
    \<and> own_prop (set_prop m ''eventType'' (own_prop m ''notificationType'')) ''eventType''
        = own_prop m ''notificationType''
    \<and> own_prop ev ''eventType'' = own_prop m ''notificationType''"
proof -
  let ?m' = "set_prop m ''eventType'' (own_prop m ''notificationType'')"
  from assms(3) obtain fs where m: "m = JObj fs"
    using truthy_prop_obj by blast
  have l: "legacy_to_eventType m = ?m'"
    using assms(3) by (simp add: legacy_to_eventType_def)
  have rel: "truthy (own_prop m ''eventType'') \<or> truthy (own_prop m ''notificationType'')"
    using assms(3) by simp
  obtain ev where ev: "processSESEvent (toISOString rt (world s)) ?m' = Inr ev"
    and p: "sesEventsHandler_prepare rt r s
        = (Inr (Relevant ?m' ev),
           s\<lparr>console := console s @
              [console_log [Text ''Processing SNS record:'', RecordArg r],
               console_log [Text ''Raw SNS Message:'', Text (Message (Sns r))]]\<rparr>)"
    using prepare_relevant [OF assms(1,2) rel, of s] unfolding l
    by (elim exE conjE) (rule that)
  have k: "own_prop ?m' ''eventType'' = own_prop m ''notificationType''"
    unfolding m by (simp add: own_prop_obj)
  from ev have "own_prop ev ''eventType'' = js_or (own_prop ?m' ''eventType'') unknown"
    unfolding m by (simp add: processSESEvent_eventType)
  with k assms(3) have e: "own_prop ev ''eventType'' = own_prop m ''notificationType''"
    by (simp add: js_or_def)
  from p ev k e show ?thesis by (intro exI conjI)
qed

text \<open>The theorem on a message that says \<^verbatim>\<open>Delivery\<close> and, in the legacy field, \<^verbatim>\<open>Bounce\<close>.\<close>

theorem legacy_discriminator_precedence_witness:
  "\<exists>ev s2.
      sesEventsHandler_prepare (test_runtime test_parse)
        \<lparr>EventSource = ''aws:sns'',
         Sns = \<lparr>Message = ''{\"eventType\":\"Delivery\",\"notificationType\":\"Bounce\"}''\<rparr>\<rparr>
        (test_state [])
        = (Inr (Relevant
             (JObj [(''eventType'', JStr ''Bounce''), (''notificationType'', JStr ''Bounce'')])
             ev), s2)
    \<and> own_prop ev ''eventType'' = JStr ''Bounce''"
proof -
  let ?rt = "test_runtime test_parse"
  let ?r = "\<lparr>EventSource = ''aws:sns'',
         Sns = \<lparr>Message = ''{\"eventType\":\"Delivery\",\"notificationType\":\"Bounce\"}''\<rparr>\<rparr>"
  let ?m = "JObj [(''eventType'', JStr ''Delivery''), (''notificationType'', JStr ''Bounce'')]"
  have a1: "EventSource ?r = ''aws:sns''" by simp
  have a2: "JSON_parse ?rt (Message (Sns ?r)) = Inr ?m"
    by (simp add: test_runtime_def test_parse_def)
  have a3: "truthy (own_prop ?m ''notificationType'')" by (simp add: own_prop_obj)
  have n: "own_prop ?m ''notificationType'' = JStr ''Bounce''" by (simp add: own_prop_obj)
  have u: "set_prop ?m ''eventType'' (JStr ''Bounce'')
           = JObj [(''eventType'', JStr ''Bounce''), (''notificationType'', JStr ''Bounce'')]"
    by simp
  obtain ev s2 where
    "sesEventsHandler_prepare ?rt ?r (test_state [])
        = (Inr (Relevant (set_prop ?m ''eventType'' (own_prop ?m ''notificationType'')) ev), s2)"
    "own_prop ev ''eventType'' = own_prop ?m ''notificationType''"
    using legacy_discriminator_precedence [OF a1 a2 a3, of "test_state []"]
    by (elim exE conjE) (rule that)
  then have "sesEventsHandler_prepare ?rt ?r (test_state [])
        = (Inr (Relevant
             (JObj [(''eventType'', JStr ''Bounce''), (''notificationType'', JStr ''Bounce'')])
             ev), s2)"
    "own_prop ev ''eventType'' = JStr ''Bounce''"
    unfolding n u by simp_all
  then show ?thesis by (intro exI conjI)
qed

text \<open>
  As the specification states it, the property fails: a message that holds both fields with an empty
  \<^verbatim>\<open>notificationType\<close> keeps its \<^verbatim>\<open>eventType\<close>, and the record is built as a bounce.
\<close>

theorem legacy_discriminator_empty_counterexample:
  "JSON_parse (test_runtime test_parse) ''{\"eventType\":\"Bounce\",\"notificationType\":\"\"}''
     = Inr (JObj [(''eventType'', JStr ''Bounce''), (''notificationType'', JStr [])])
   \<and> (case fst (sesEventsHandler_prepare (test_runtime test_parse)
         \<lparr>EventSource = ''aws:sns'',
          Sns = \<lparr>Message = ''{\"eventType\":\"Bounce\",\"notificationType\":\"\"}''\<rparr>\<rparr>
         (test_state [])) of
        Inr (Relevant m ev) \<Rightarrow>
          own_prop m ''eventType'' = JStr ''Bounce''
          \<and> own_prop ev ''eventType'' = JStr ''Bounce''
          \<and> own_prop ev ''bounceType'' = unknown
      | Inr Skip \<Rightarrow> False
      | Inl e \<Rightarrow> False)"
  by (simp add: handler_eval test_eval js_eval)

text \<open>
  For a message without the legacy field the \<^verbatim>\<open>rawEvent\<close> of the record is the decoded
  message as it came.
\<close>

lemma rawEvent_verbatim_without_legacy:
  assumes "EventSource r = ''aws:sns''"
    and "JSON_parse rt (Message (Sns r)) = Inr m"
    and "truthy (own_prop m ''eventType'')"
    and "\<not> truthy (own_prop m ''notificationType'')"
  shows "\<exists>ev s2. sesEventsHandler_prepare rt r s = (Inr (Relevant m ev), s2)
           \<and> own_prop ev ''rawEvent'' = m"
proof -
  from assms(3) obtain fs where m: "m = JObj fs"
    using truthy_prop_obj by blast
  have l: "legacy_to_eventType m = m"
    using assms(4) by (simp add: legacy_to_eventType_def)
  have rel: "truthy (own_prop m ''eventType'') \<or> truthy (own_prop m ''notificationType'')"
    using assms(3) by simp
  obtain ev where ev: "processSESEvent (toISOString rt (world s)) m = Inr ev"
    and p: "sesEventsHandler_prepare rt r s
        = (Inr (Relevant m ev),
           s\<lparr>console := console s @
              [console_log [Text ''Processing SNS record:'', RecordArg r],
               console_log [Text ''Raw SNS Message:'', Text (Message (Sns r))]]\<rparr>)"
    using prepare_relevant [OF assms(1,2) rel, of s] unfolding l
    by (elim exE conjE) (rule that)
  from ev have "own_prop ev ''rawEvent'' = m"
    unfolding m by (rule processSESEvent_rawEvent)
  with p show ?thesis by (intro exI conjI)
qed

text \<open>
  Claim C8, evaluated at two legacy messages. The claim says that \<^verbatim>\<open>rawEvent\<close> is the
  decoded message unmodified; the \<^verbatim>\<open>rawEvent\<close> of the record handed to
  \<^verbatim>\<open>writeToCloudWatch\<close> is the decoded message with an \<^verbatim>\<open>eventType\<close> added, and, when
  the message had an \<^verbatim>\<open>eventType\<close> of its own, with that value overwritten.
\<close>

theorem rawEvent_legacy_payload:
  "JSON_parse (test_runtime test_parse) ''{\"notificationType\":\"Bounce\"}''
     = Inr (JObj [(''notificationType'', JStr ''Bounce'')])
   \<and> (case fst (sesEventsHandler_prepare (test_runtime test_parse)
         \<lparr>EventSource = ''aws:sns'',
          Sns = \<lparr>Message = ''{\"notificationType\":\"Bounce\"}''\<rparr>\<rparr>
         (test_state [])) of
        Inr (Relevant m ev) \<Rightarrow>
          own_prop ev ''rawEvent''
          = JObj [(''notificationType'', JStr ''Bounce''), (''eventType'', JStr ''Bounce'')]
      | Inr Skip \<Rightarrow> False
      | Inl e \<Rightarrow> False)
   \<and> JSON_parse (test_runtime test_parse)
       ''{\"eventType\":\"Delivery\",\"notificationType\":\"Bounce\"}''
     = Inr (JObj [(''eventType'', JStr ''Delivery''), (''notificationType'', JStr ''Bounce'')])
   \<and> (case fst (sesEventsHandler_prepare (test_runtime test_parse)
         \<lparr>EventSource = ''aws:sns'',
          Sns = \<lparr>Message = ''{\"eventType\":\"Delivery\",\"notificationType\":\"Bounce\"}''\<rparr>\<rparr>
         (test_state [])) of
        Inr (Relevant m ev) \<Rightarrow>
          own_prop ev ''rawEvent''
          = JObj [(''eventType'', JStr ''Bounce''), (''notificationType'', JStr ''Bounce'')]
      | Inr Skip \<Rightarrow> False
      | Inl e \<Rightarrow> False)"
  by (simp add: handler_eval test_eval js_eval)

end
